theory Spec2Isabelle
  imports Main "HOL-Library.Word" "HOL-Library.Char_ord" "HOL-Library.List_Lexorder"
    "HOL-Library.Product_Lexorder" "HOL-Library.Multiset"
begin

unbundle bit_operations_syntax

section \<open>Python values, exceptions and byte strings\<close>

text \<open>
  A Python 2 \<^verbatim>\<open>str\<close> is a byte string; it is modelled by \<^typ>\<open>string\<close> (a list of 8-bit
  characters). The same type models the contents of a \<^verbatim>\<open>cStringIO\<close> stream: writing
  appends, reading takes a prefix and leaves the rest.

  Every \<^verbatim>\<open>raise\<close> of the source is a value \<open>Inl e\<close> of the result type. The
  exceptions are the classes the code and its primitives raise; \<open>OtherError\<close> is an
  exception of any other class, by the name of the class (the runtime may raise one
  when it decodes a text).
\<close>

datatype error =
    StructError
  | KeyError
  | IndexError
  | LookupError
  | ValueError string
  | TypeError string
  | NameError string
  | AttributeError string
  | RuntimeError string
  | NotImplementedError string
  | OtherError string

text \<open>
  The values the codec handles. \<open>VInt\<close> is a Python \<^verbatim>\<open>int\<close>, \<open>VLong\<close> a \<^verbatim>\<open>long\<close>;
  a \<^verbatim>\<open>float\<close> is represented by its IEEE-754 bit pattern (the codec only moves the
  eight bytes); a \<^verbatim>\<open>unicode\<close> object is represented by its UTF-8 encoding; \<open>VBytes\<close>
  is a \<^verbatim>\<open>str\<close>. A \<^verbatim>\<open>list\<close>, \<^verbatim>\<open>tuple\<close> or \<^verbatim>\<open>set\<close> is \<open>VSeq\<close> with its kind and
  its elements in iteration order; a \<^verbatim>\<open>dict\<close> is the list of its items in iteration
  order. The components of a \<^verbatim>\<open>slice\<close> are integers or \<^verbatim>\<open>None\<close>. An exception
  instance is its class name and its \<^verbatim>\<open>args\<close>.
\<close>

datatype seqkind = T_list | T_tuple | T_set

datatype "value" =
    VInt int
  | VLong int
  | VFloat "64 word"
  | VBytes string
  | VText string
  | VBool bool
  | VSeq seqkind "value list"
  | VMap "(value \<times> value) list"
  | VNone
  | VSlice "int option" "int option" "int option"
  | VEllipsis
  | VError string "value list"

text \<open>
  What the codec takes from the Python runtime and the model takes as given:
  \<^item> \<open>decode codec data\<close> is \<^verbatim>\<open>data.decode(codec, 'replace')\<close>: the object that the
    codec of that name in the codec registry of Python makes of the bytes (a text for
    a character encoding), or the exception raised (\<^verbatim>\<open>LookupError\<close> when the registry
    knows no codec of that name);
  \<^item> \<open>set_order\<close> and \<open>dict_order\<close> give the order in which a set or a dict that was
    built by adding the listed elements or items one after the other is iterated
    (the order of its hash table);
  \<^item> \<open>construct name args\<close> is the result of calling, with these arguments, an
    attribute of the module \<^verbatim>\<open>exceptions\<close> other than the plain exception classes
    (see \<open>make_error\<close> below).
\<close>

record runtime =
  decode :: "string \<Rightarrow> string \<Rightarrow> error + value"
  set_order :: "value list \<Rightarrow> value list"
  dict_order :: "(value \<times> value) list \<Rightarrow> (value \<times> value) list"
  construct :: "string \<Rightarrow> value list \<Rightarrow> error + value"

subsection \<open>Writing and reading a stream\<close>

text \<open>
  A serializer writes to \<^verbatim>\<open>fout\<close>; the model returns the bytes written, or the
  exception. \<open>write2 a b\<close> is \<open>a\<close> followed by \<open>b\<close>: the first exception wins.
\<close>

definition write2 :: "error + string \<Rightarrow> error + string \<Rightarrow> error + string" where
  "write2 a b = (case a of Inl e \<Rightarrow> Inl e | Inr x \<Rightarrow> (case b of Inl e \<Rightarrow> Inl e | Inr y \<Rightarrow> Inr (x @ y)))"

definition writes :: "(error + string) list \<Rightarrow> error + string" where
  "writes ws = foldr write2 ws (Inr [])"

text \<open>\<^verbatim>\<open>fin.read(n)\<close>: at most \<open>n\<close> bytes; everything that is left when \<open>n\<close> is negative.\<close>

definition read :: "int \<Rightarrow> string \<Rightarrow> string \<times> string" where
  "read n fin = (if n < 0 then (fin, []) else (take (nat n) fin, drop (nat n) fin))"

subsection \<open>\<^verbatim>\<open>struct.pack\<close> and \<^verbatim>\<open>struct.unpack\<close>\<close>

fun be_bytes :: "nat \<Rightarrow> int \<Rightarrow> string" where
  "be_bytes 0 n = []"
| "be_bytes (Suc k) n = be_bytes k (n div 256) @ [char_of n]"

definition be_int :: "string \<Rightarrow> int" where
  "be_int s = foldl (\<lambda>a c. a * 256 + of_char c) 0 s"

text \<open>Format \<^verbatim>\<open>!l\<close>: four bytes, big-endian, two's complement; out of range raises.\<close>

definition pack_l :: "int \<Rightarrow> error + string" where
  "pack_l i = (if - (2 ^ 31) \<le> i \<and> i < 2 ^ 31
     then Inr (be_bytes 4 (i mod 2 ^ 32)) else Inl StructError)"

definition unpack_l :: "string \<Rightarrow> error + int" where
  "unpack_l s = (if length s = 4
     then (let u = be_int s in Inr (if u < 2 ^ 31 then u else u - 2 ^ 32))
     else Inl StructError)"

text \<open>Format \<^verbatim>\<open>!B\<close>: one unsigned byte.\<close>

definition pack_B :: "int \<Rightarrow> error + string" where
  "pack_B i = (if 0 \<le> i \<and> i \<le> 255 then Inr [char_of i] else Inl StructError)"

definition unpack_B :: "string \<Rightarrow> error + int" where
  "unpack_B s = (case s of [c] \<Rightarrow> Inr (of_char c) | _ \<Rightarrow> Inl StructError)"

text \<open>Format \<^verbatim>\<open>!d\<close>: the eight bytes of the double, big-endian.\<close>

definition pack_d :: "64 word \<Rightarrow> error + string" where
  "pack_d w = Inr (be_bytes 8 (uint w))"

definition unpack_d :: "string \<Rightarrow> error + 64 word" where
  "unpack_d s = (if length s = 8 then Inr (word_of_int (be_int s)) else Inl StructError)"

subsection \<open>\<^verbatim>\<open>str\<close> of a long and \<^verbatim>\<open>long\<close> of a string\<close>

function dec_digits :: "int \<Rightarrow> string" where
  "dec_digits n = (if n < 10 then [char_of (48 + n)] else dec_digits (n div 10) @ [char_of (48 + n mod 10)])"
  by pat_completeness auto
termination dec_digits
  by (relation "measure nat") auto

declare dec_digits.simps [simp del]

definition py_str_long :: "int \<Rightarrow> string" where
  "py_str_long i = (if i < 0 then CHR ''-'' # dec_digits (- i) else dec_digits i)"

definition is_digit :: "char \<Rightarrow> bool" where
  "is_digit c = (48 \<le> (of_char c :: int) \<and> (of_char c :: int) \<le> 57)"

definition digits_int :: "string \<Rightarrow> int" where
  "digits_int s = foldl (\<lambda>a c. a * 10 + (of_char c - 48)) 0 s"

definition is_space :: "char \<Rightarrow> bool" where
  "is_space c = ((9 \<le> (of_char c :: int) \<and> (of_char c :: int) \<le> 13) \<or> c = CHR '' '')"

text \<open>
  \<^verbatim>\<open>long(s)\<close> in base 10, as Python 2 reads it: blanks, an optional sign, blanks,
  one or more decimal digits, an optional \<^verbatim>\<open>L\<close> or \<^verbatim>\<open>l\<close>, blanks, and nothing
  else; any other string is a \<^verbatim>\<open>ValueError\<close>.
\<close>

definition py_long :: "string \<Rightarrow> error + int" where
  "py_long s =
     (let s1 = dropWhile is_space s;
          neg = (s1 \<noteq> [] \<and> hd s1 = CHR ''-'');
          s2 = (if s1 \<noteq> [] \<and> (hd s1 = CHR ''-'' \<or> hd s1 = CHR ''+'') then tl s1 else s1);
          s3 = dropWhile is_space s2;
          ds = takeWhile is_digit s3;
          r = dropWhile is_digit s3;
          r1 = (if r \<noteq> [] \<and> (hd r = CHR ''L'' \<or> hd r = CHR ''l'') then tl r else r);
          r2 = dropWhile is_space r1
      in if ds \<noteq> [] \<and> r2 = [] then Inr (if neg then - digits_int ds else digits_int ds)
         else Inl (ValueError ''invalid literal for long()''))"

section \<open>serialize.py: the leaf serializers\<close>

definition PREFERRED_ENCODING :: string where
  "PREFERRED_ENCODING = ''UTF-8''"

definition TEXT_ERROR_MODE :: string where
  "TEXT_ERROR_MODE = ''replace''"

definition IntSerializer_Serialize :: "int \<Rightarrow> error + string" where
  "IntSerializer_Serialize obj = pack_l obj"

definition IntSerializer_Deserialize :: "string \<Rightarrow> error + int \<times> string" where
  "IntSerializer_Deserialize fin = (case read 4 fin of (b, fin') \<Rightarrow>
     (case unpack_l b of Inl e \<Rightarrow> Inl e | Inr i \<Rightarrow> Inr (i, fin')))"

definition ByteSerializer_Serialize :: "int \<Rightarrow> error + string" where
  "ByteSerializer_Serialize obj = pack_B obj"

definition ByteSerializer_Deserialize :: "string \<Rightarrow> error + int \<times> string" where
  "ByteSerializer_Deserialize fin = (case read 1 fin of (b, fin') \<Rightarrow>
     (case unpack_B b of Inl e \<Rightarrow> Inl e | Inr i \<Rightarrow> Inr (i, fin')))"

definition FloatSerializer_Serialize :: "64 word \<Rightarrow> error + string" where
  "FloatSerializer_Serialize obj = pack_d obj"

definition FloatSerializer_Deserialize :: "string \<Rightarrow> error + 64 word \<times> string" where
  "FloatSerializer_Deserialize fin = (case read 8 fin of (b, fin') \<Rightarrow>
     (case unpack_d b of Inl e \<Rightarrow> Inl e | Inr w \<Rightarrow> Inr (w, fin')))"

definition BytesSerializer_Serialize :: "string \<Rightarrow> error + string" where
  "BytesSerializer_Serialize obj = write2 (IntSerializer_Serialize (int (length obj))) (Inr obj)"

definition BytesSerializer_Deserialize :: "string \<Rightarrow> error + string \<times> string" where
  "BytesSerializer_Deserialize fin = (case IntSerializer_Deserialize fin of
       Inl e \<Rightarrow> Inl e
     | Inr (l, fin') \<Rightarrow> Inr (read l fin'))"

definition LongSerializer_Serialize :: "int \<Rightarrow> error + string" where
  "LongSerializer_Serialize obj = BytesSerializer_Serialize (py_str_long obj)"

definition LongSerializer_Deserialize :: "string \<Rightarrow> error + int \<times> string" where
  "LongSerializer_Deserialize fin = (case BytesSerializer_Deserialize fin of
       Inl e \<Rightarrow> Inl e
     | Inr (s, fin') \<Rightarrow> (case py_long s of Inl e \<Rightarrow> Inl e | Inr i \<Rightarrow> Inr (i, fin')))"

text \<open>
  A text is represented by its UTF-8 form, so \<^verbatim>\<open>obj.encode('UTF-8', 'replace')\<close> is
  that form. Decoding is the codec registry of the runtime; \<^verbatim>\<open>except LookupError\<close>
  catches \<^verbatim>\<open>LookupError\<close> and its subclasses \<^verbatim>\<open>KeyError\<close> and \<^verbatim>\<open>IndexError\<close>.
\<close>

definition encode_text :: "string \<Rightarrow> string \<Rightarrow> error + string" where
  "encode_text codec text = (if codec = ''UTF-8'' then Inr text else Inl LookupError)"

definition TextSerializer_Serialize :: "string \<Rightarrow> error + string" where
  "TextSerializer_Serialize obj =
     write2 (BytesSerializer_Serialize PREFERRED_ENCODING)
       (case encode_text PREFERRED_ENCODING obj of Inl e \<Rightarrow> Inl e | Inr b \<Rightarrow> BytesSerializer_Serialize b)"

definition TextSerializer_Deserialize :: "runtime \<Rightarrow> string \<Rightarrow> error + value \<times> string" where
  "TextSerializer_Deserialize rt fin = (case BytesSerializer_Deserialize fin of
       Inl e \<Rightarrow> Inl e
     | Inr (codec, fin1) \<Rightarrow> (case BytesSerializer_Deserialize fin1 of
         Inl e \<Rightarrow> Inl e
       | Inr (data, fin2) \<Rightarrow> (case decode rt codec data of
           Inr obj \<Rightarrow> Inr (obj, fin2)
         | Inl e \<Rightarrow>
             (if e = LookupError \<or> e = KeyError \<or> e = IndexError
              then (if TEXT_ERROR_MODE = ''strict'' then Inl e else Inr (VText [], fin2))
              else Inl e))))"

definition BoolSerializer_Serialize :: "bool \<Rightarrow> error + string" where
  "BoolSerializer_Serialize obj = IntSerializer_Serialize (if obj then 1 else 0)"

definition BoolSerializer_Deserialize :: "string \<Rightarrow> error + bool \<times> string" where
  "BoolSerializer_Deserialize fin = (case IntSerializer_Deserialize fin of
       Inl e \<Rightarrow> Inl e
     | Inr (i, fin') \<Rightarrow> Inr (i \<noteq> 0, fin'))"

text \<open>\<^verbatim>\<open>IntSerializer.Serialize(obj.start, fout)\<close>: \<^verbatim>\<open>struct.pack\<close> refuses \<^verbatim>\<open>None\<close>.\<close>

definition pack_component :: "int option \<Rightarrow> error + string" where
  "pack_component c = (case c of None \<Rightarrow> Inl StructError | Some i \<Rightarrow> IntSerializer_Serialize i)"

definition SliceSerializer_Serialize :: "int option \<Rightarrow> int option \<Rightarrow> int option \<Rightarrow> error + string" where
  "SliceSerializer_Serialize start stop step =
     writes [pack_component start, pack_component stop, pack_component step]"

definition SliceSerializer_Deserialize :: "string \<Rightarrow> error + value \<times> string" where
  "SliceSerializer_Deserialize fin = (case IntSerializer_Deserialize fin of
       Inl e \<Rightarrow> Inl e
     | Inr (start, fin1) \<Rightarrow> (case IntSerializer_Deserialize fin1 of
         Inl e \<Rightarrow> Inl e
       | Inr (stop, fin2) \<Rightarrow> (case IntSerializer_Deserialize fin2 of
           Inl e \<Rightarrow> Inl e
         | Inr (step, fin3) \<Rightarrow> Inr (VSlice (Some start) (Some stop) (Some step), fin3))))"

section \<open>Comparison, hashing and the containers of Python\<close>

text \<open>
  The number a value stands for in a comparison: an integer, a long and a boolean
  are themselves; a float is decoded from its IEEE-754 pattern as \<open>m * 2 ^ e\<close>, an
  infinity or a NaN. Python compares a float with an integer exactly.
\<close>

datatype fnum = Finite int int | PosInf | NegInf | NaN

definition float_num :: "64 word \<Rightarrow> fnum" where
  "float_num w =
     (let b = uint w; neg = (2 ^ 63 \<le> b); e = (b div 2 ^ 52) mod 2 ^ 11; m = b mod 2 ^ 52
      in if e = 2047 then (if m \<noteq> 0 then NaN else if neg then NegInf else PosInf)
         else if e = 0 then Finite (if neg then - m else m) (- 1074)
         else Finite (if neg then - (2 ^ 52 + m) else 2 ^ 52 + m) (e - 1075))"

definition number :: "value \<Rightarrow> fnum option" where
  "number v = (case v of VInt i \<Rightarrow> Some (Finite i 0) | VLong i \<Rightarrow> Some (Finite i 0)
     | VBool b \<Rightarrow> Some (Finite (if b then 1 else 0) 0) | VFloat w \<Rightarrow> Some (float_num w)
     | _ \<Rightarrow> None)"

definition scaled :: "int \<Rightarrow> int \<Rightarrow> int \<Rightarrow> int" where
  "scaled m e lo = m * 2 ^ nat (e - lo)"

fun fnum_eq :: "fnum \<Rightarrow> fnum \<Rightarrow> bool" where
  "fnum_eq (Finite m e) (Finite m' e') = (scaled m e (min e e') = scaled m' e' (min e e'))"
| "fnum_eq PosInf PosInf = True"
| "fnum_eq NegInf NegInf = True"
| "fnum_eq x y = False"

fun fnum_lt :: "fnum \<Rightarrow> fnum \<Rightarrow> bool" where
  "fnum_lt (Finite m e) (Finite m' e') = (scaled m e (min e e') < scaled m' e' (min e e'))"
| "fnum_lt NaN y = False"
| "fnum_lt x NaN = False"
| "fnum_lt NegInf y = (y \<noteq> NegInf)"
| "fnum_lt x PosInf = (x \<noteq> PosInf)"
| "fnum_lt x y = False"

text \<open>
  \<^verbatim>\<open>==\<close> and \<^verbatim>\<open><\<close> of Python 2 as the code asks them: of the keys of a dict and the
  elements of a set, which are hashable, of an xid, and of an address with the
  address of the service. Numbers compare by value; a \<^verbatim>\<open>str\<close> and a \<^verbatim>\<open>unicode\<close>
  compare by content, and a \<^verbatim>\<open>str\<close> equals a \<^verbatim>\<open>unicode\<close> only when it is ASCII;
  tuples and lists compare element by element; two exception objects are never
  equal (they compare by identity); \<^verbatim>\<open>None\<close> is below everything, and objects of
  different kinds are ordered by the name of their type, numbers first.
  Not modelled: \<^verbatim>\<open><\<close> between a non-ASCII \<^verbatim>\<open>str\<close> and a \<^verbatim>\<open>unicode\<close> (it raises in
  Python, it is false here), the equality of two sets or of two dicts (never asked
  of hashable values; they are equal here when listed alike), the order of objects
  of one kind other than numbers, strings, lists and tuples (false here), and the
  identity of an object with itself.
\<close>

definition ascii :: "string \<Rightarrow> bool" where
  "ascii s = (\<forall>c \<in> set s. (of_char c :: int) < 128)"

definition str_of :: "value \<Rightarrow> string option" where
  "str_of v = (case v of VBytes s \<Rightarrow> Some s | VText s \<Rightarrow> Some s | _ \<Rightarrow> None)"


text \<open>A \<^verbatim>\<open>str\<close> and a \<^verbatim>\<open>unicode\<close> side by side, of which the \<^verbatim>\<open>str\<close> is not ASCII.\<close>

definition undecodable :: "value \<Rightarrow> value \<Rightarrow> bool" where
  "undecodable a b = (case (a, b) of
       (VBytes s, VText t) \<Rightarrow> \<not> ascii s
     | (VText s, VBytes t) \<Rightarrow> \<not> ascii t
     | _ \<Rightarrow> False)"

definition tyname :: "value \<Rightarrow> string" where
  "tyname v = (case v of
       VInt _ \<Rightarrow> [] | VLong _ \<Rightarrow> [] | VFloat _ \<Rightarrow> [] | VBool _ \<Rightarrow> []
     | VBytes _ \<Rightarrow> ''str'' | VText _ \<Rightarrow> ''unicode''
     | VSeq T_list _ \<Rightarrow> ''list'' | VSeq T_tuple _ \<Rightarrow> ''tuple'' | VSeq T_set _ \<Rightarrow> ''set''
     | VMap _ \<Rightarrow> ''dict'' | VNone \<Rightarrow> ''NoneType'' | VSlice _ _ _ \<Rightarrow> ''slice''
     | VEllipsis \<Rightarrow> ''ellipsis'' | VError name _ \<Rightarrow> name)"

definition scalar_eq :: "value \<Rightarrow> value \<Rightarrow> bool" where
  "scalar_eq a b = (case (number a, number b) of
       (Some x, Some y) \<Rightarrow> fnum_eq x y
     | _ \<Rightarrow> (case (str_of a, str_of b) of
         (Some s, Some t) \<Rightarrow> s = t \<and> \<not> undecodable a b
       | _ \<Rightarrow> (case a of VError name args \<Rightarrow> False | _ \<Rightarrow> a = b)))"

definition scalar_lt :: "value \<Rightarrow> value \<Rightarrow> bool" where
  "scalar_lt a b =
     (if a = VNone then b \<noteq> VNone
      else if b = VNone then False
      else (case (number a, number b) of
          (Some x, Some y) \<Rightarrow> fnum_lt x y
        | _ \<Rightarrow> (case (str_of a, str_of b) of
            (Some s, Some t) \<Rightarrow> s < t \<and> \<not> undecodable a b
          | _ \<Rightarrow> tyname a < tyname b)))"

fun py_eq :: "value \<Rightarrow> value \<Rightarrow> bool"
  and py_eq_list :: "value list \<Rightarrow> value list \<Rightarrow> bool" where
  "py_eq (VSeq k xs) (VSeq k' ys) = (k = k' \<and> py_eq_list xs ys)"
| "py_eq a b = scalar_eq a b"
| "py_eq_list [] [] = True"
| "py_eq_list (x # xs) (y # ys) = (py_eq x y \<and> py_eq_list xs ys)"
| "py_eq_list _ _ = False"

fun py_lt :: "value \<Rightarrow> value \<Rightarrow> bool"
  and py_lt_list :: "value list \<Rightarrow> value list \<Rightarrow> bool" where
  "py_lt (VSeq k xs) (VSeq k' ys) =
     (if k = k' then (k \<noteq> T_set \<and> py_lt_list xs ys) else scalar_lt (VSeq k []) (VSeq k' []))"
| "py_lt a b = scalar_lt a b"
| "py_lt_list [] [] = False"
| "py_lt_list [] (y # ys) = True"
| "py_lt_list (x # xs) [] = False"
| "py_lt_list (x # xs) (y # ys) = (if py_eq x y then py_lt_list xs ys else py_lt x y)"

text \<open>\<^verbatim>\<open>hash(v)\<close> succeeds: lists, sets, dicts and slices are unhashable.\<close>

fun hashable :: "value \<Rightarrow> bool" where
  "hashable (VSeq k xs) = (k = T_tuple \<and> (\<forall>x \<in> set xs. hashable x))"
| "hashable (VMap kvs) = False"
| "hashable (VSlice a b c) = False"
| "hashable v = True"

text \<open>
  \<^verbatim>\<open>d[k] = v\<close> on a dict held as the list of its items: an equal key keeps its place
  and its key object and takes the new value; a new key is added.
\<close>

fun dict_update :: "value \<Rightarrow> 'v \<Rightarrow> (value \<times> 'v) list \<Rightarrow> (value \<times> 'v) list" where
  "dict_update k v [] = [(k, v)]"
| "dict_update k v ((k', v') # d) =
     (if py_eq k' k then (k', v) # d else (k', v') # dict_update k v d)"

definition dict_setitem :: "(value \<times> 'v) list \<Rightarrow> value \<Rightarrow> 'v \<Rightarrow> error + (value \<times> 'v) list" where
  "dict_setitem d k v = (if hashable k then Inr (dict_update k v d) else Inl (TypeError ''unhashable type''))"

text \<open>
  \<^verbatim>\<open>set(ret)\<close>: the first of several equal elements is kept; the new set lists its
  elements in the order the runtime iterates it.
\<close>

definition set_add :: "value list \<Rightarrow> value \<Rightarrow> value list" where
  "set_add acc x = (if \<exists>y \<in> set acc. py_eq y x then acc else acc @ [x])"

definition py_set :: "runtime \<Rightarrow> value list \<Rightarrow> error + value" where
  "py_set rt ret = (if \<forall>x \<in> set ret. hashable x
     then Inr (VSeq T_set (set_order rt (foldl set_add [] ret)))
     else Inl (TypeError ''unhashable type''))"

text \<open>
  \<^verbatim>\<open>sorted(obj.items(), key=lambda item: item[0])\<close>: a stable sort of the items by
  their keys, which uses only \<^verbatim>\<open><\<close> on the keys. It is written here as an insertion
  sort. On keys that \<^verbatim>\<open><\<close> orders, every stable sort has the same result; on keys
  that \<^verbatim>\<open><\<close> does not order (a NaN; a \<^verbatim>\<open>str\<close>, a tuple and a \<^verbatim>\<open>unicode\<close>, which Python 2
  compares in a cycle) the result of the merge sort of Python is not modelled.
\<close>

fun insort_item :: "value \<times> 'v \<Rightarrow> (value \<times> 'v) list \<Rightarrow> (value \<times> 'v) list" where
  "insort_item x [] = [x]"
| "insort_item x (y # ys) = (if py_lt (fst y) (fst x) then y # insort_item x ys else x # y # ys)"

definition py_sorted :: "(value \<times> 'v) list \<Rightarrow> (value \<times> 'v) list" where
  "py_sorted items = foldr insort_item items []"

section \<open>serialize.py: the registry\<close>

text \<open>
  The classes of the module, with the tag each declares (\<^verbatim>\<open>BaseSerializer\<close> takes
  \<^verbatim>\<open>CURTAG\<close>, which is 0 when it is created). \<open>TAGS\<close> and \<open>SERIALIZERS\<close> are the
  two dictionaries as the metaclass leaves them once the module is loaded.

  A \<^verbatim>\<open>Service\<close>, when it is created, adds one entry to each: the type \<^verbatim>\<open>object\<close> and the
  tag 255, both for its object translator. \<^verbatim>\<open>object\<close> has the shortest MRO, so
  \<^verbatim>\<open>GetIdealSerializer\<close> prefers to it every type listed here and the values of this
  theory are written alike with and without a service. Reading the tag 255 is
  \<open>ObjectTranslator_Deserialize\<close> below; \<open>Deserialize\<close> here is the function of a
  process in which no service was created, where the tag 255 is a \<^verbatim>\<open>KeyError\<close>.
\<close>

datatype serializer =
    BaseSerializer | IntSerializer | LongSerializer | FloatSerializer | BytesSerializer
  | TextSerializer | BoolSerializer | SequenceSerializer | MapSerializer | ByteSerializer
  | NoneSerializer | SliceSerializer | EllipsisSerializer | ErrorSerializer

definition tag_of :: "serializer \<Rightarrow> int" where
  "tag_of se = (case se of
       BaseSerializer \<Rightarrow> 0 | IntSerializer \<Rightarrow> 1 | LongSerializer \<Rightarrow> 2 | FloatSerializer \<Rightarrow> 3
     | BytesSerializer \<Rightarrow> 4 | TextSerializer \<Rightarrow> 5 | BoolSerializer \<Rightarrow> 6
     | SequenceSerializer \<Rightarrow> 7 | MapSerializer \<Rightarrow> 8 | ByteSerializer \<Rightarrow> 9
     | NoneSerializer \<Rightarrow> 10 | SliceSerializer \<Rightarrow> 11 | EllipsisSerializer \<Rightarrow> 12
     | ErrorSerializer \<Rightarrow> 13)"

definition TAGS :: "(int \<times> serializer) list" where
  "TAGS = map (\<lambda>se. (tag_of se, se))
     [BaseSerializer, IntSerializer, LongSerializer, FloatSerializer, BytesSerializer,
      TextSerializer, BoolSerializer, SequenceSerializer, MapSerializer, ByteSerializer,
      NoneSerializer, SliceSerializer, EllipsisSerializer, ErrorSerializer]"

text \<open>The types named in the \<^verbatim>\<open>__types__\<close> tuples.\<close>

datatype pytype =
    Py_int | Py_long | Py_float | Py_str | Py_unicode | Py_bool | Py_list | Py_tuple
  | Py_set | Py_dict | Py_NoneType | Py_slice | Py_ellipsis | Py_Exception

definition SERIALIZERS :: "(pytype \<times> serializer) list" where
  "SERIALIZERS =
     [(Py_int, IntSerializer), (Py_long, LongSerializer), (Py_float, FloatSerializer),
      (Py_str, BytesSerializer), (Py_unicode, TextSerializer), (Py_bool, BoolSerializer),
      (Py_list, SequenceSerializer), (Py_tuple, SequenceSerializer), (Py_set, SequenceSerializer),
      (Py_dict, MapSerializer), (Py_NoneType, NoneSerializer), (Py_slice, SliceSerializer),
      (Py_ellipsis, EllipsisSerializer), (Py_Exception, ErrorSerializer)]"

text \<open>
  \<^verbatim>\<open>len(tp.mro())\<close>: \<^verbatim>\<open>bool\<close> derives from \<^verbatim>\<open>int\<close>, \<^verbatim>\<open>str\<close> and \<^verbatim>\<open>unicode\<close> from
  \<^verbatim>\<open>basestring\<close>, \<^verbatim>\<open>Exception\<close> from \<^verbatim>\<open>BaseException\<close>; the others derive from
  \<^verbatim>\<open>object\<close> directly.
\<close>

definition mro_len :: "pytype \<Rightarrow> nat" where
  "mro_len tp = (if tp \<in> {Py_str, Py_unicode, Py_bool, Py_Exception} then 3 else 2)"

definition isinstance :: "value \<Rightarrow> pytype \<Rightarrow> bool" where
  "isinstance obj tp = (case obj of
       VInt _ \<Rightarrow> tp = Py_int
     | VLong _ \<Rightarrow> tp = Py_long
     | VFloat _ \<Rightarrow> tp = Py_float
     | VBytes _ \<Rightarrow> tp = Py_str
     | VText _ \<Rightarrow> tp = Py_unicode
     | VBool _ \<Rightarrow> tp = Py_bool \<or> tp = Py_int
     | VSeq T_list _ \<Rightarrow> tp = Py_list
     | VSeq T_tuple _ \<Rightarrow> tp = Py_tuple
     | VSeq T_set _ \<Rightarrow> tp = Py_set
     | VMap _ \<Rightarrow> tp = Py_dict
     | VNone \<Rightarrow> tp = Py_NoneType
     | VSlice _ _ _ \<Rightarrow> tp = Py_slice
     | VEllipsis \<Rightarrow> tp = Py_ellipsis
     | VError _ _ \<Rightarrow> tp = Py_Exception)"

text \<open>
  The loop of \<^verbatim>\<open>GetIdealSerializer\<close> over the items of \<open>SERIALIZERS\<close>; the state is
  \<^verbatim>\<open>(curser, curmrolen)\<close>.
\<close>

definition ideal_step :: "value \<Rightarrow> serializer option \<times> nat \<Rightarrow> pytype \<times> serializer \<Rightarrow> serializer option \<times> nat" where
  "ideal_step obj st item = (case st of (curser, curmrolen) \<Rightarrow> (case item of (tp, ser) \<Rightarrow>
     (if isinstance obj tp then
        (if mro_len tp > curmrolen then (Some ser, mro_len tp) else (curser, curmrolen))
      else (curser, curmrolen))))"

definition GetIdealSerializer :: "value \<Rightarrow> serializer option" where
  "GetIdealSerializer obj = fst (foldl (ideal_step obj) (None, 0) SERIALIZERS)"

definition SEQ_ID_MAP :: "seqkind \<Rightarrow> int" where
  "SEQ_ID_MAP k = (case k of T_list \<Rightarrow> 0 | T_tuple \<Rightarrow> 1 | T_set \<Rightarrow> 2)"

definition SEQ_TYPE_MAP :: "int \<Rightarrow> seqkind option" where
  "SEQ_TYPE_MAP i = (if i = 0 then Some T_list else if i = 1 then Some T_tuple
     else if i = 2 then Some T_set else None)"

section \<open>serialize.py: \<^verbatim>\<open>Serialize\<close>\<close>

lemma set_insort_item [simp]: "set (insort_item x ys) = insert x (set ys)"
  by (induction ys) auto

lemma set_py_sorted [simp]: "set (py_sorted items) = set items"
  by (induction items) (auto simp: py_sorted_def)

lemma size_item_fst: "(k, v) \<in> set kvs \<Longrightarrow> size k < Suc (size_list (size_prod size size) kvs)"
  by (induction kvs) auto

lemma size_item_snd: "(k, v) \<in> set kvs \<Longrightarrow> size v < Suc (size_list (size_prod size size) kvs)"
  by (induction kvs) auto

text \<open>
  \<^verbatim>\<open>Serialize(obj, stream)\<close> writes the tag of the ideal serializer and then calls its
  \<^verbatim>\<open>Serialize\<close>; the branches are the \<^verbatim>\<open>Serialize\<close> class methods. A pair of a dict
  is written by \<^verbatim>\<open>SequenceSerializer.Serialize\<close> as a tuple of two items, and
  \<^verbatim>\<open>obj.args\<close> of an exception as a tuple.
\<close>

function Serialize :: "value \<Rightarrow> error + string" where
  "Serialize obj = (case GetIdealSerializer obj of
       None \<Rightarrow> Inl (TypeError ''Unserializeable type'')
     | Some se \<Rightarrow> write2 (ByteSerializer_Serialize (tag_of se))
        (case obj of
           VInt i \<Rightarrow> IntSerializer_Serialize i
         | VLong i \<Rightarrow> LongSerializer_Serialize i
         | VFloat w \<Rightarrow> FloatSerializer_Serialize w
         | VBytes s \<Rightarrow> BytesSerializer_Serialize s
         | VText s \<Rightarrow> TextSerializer_Serialize s
         | VBool b \<Rightarrow> BoolSerializer_Serialize b
         | VSeq k xs \<Rightarrow> writes
             [IntSerializer_Serialize (int (length xs)),
              ByteSerializer_Serialize (SEQ_ID_MAP k),
              writes (map Serialize xs)]
         | VMap kvs \<Rightarrow> writes
             [IntSerializer_Serialize (int (length kvs)),
              writes (map (\<lambda>pair. writes
                 [IntSerializer_Serialize 2,
                  ByteSerializer_Serialize (SEQ_ID_MAP T_tuple),
                  Serialize (fst pair), Serialize (snd pair)]) (py_sorted kvs))]
         | VNone \<Rightarrow> Inr []
         | VSlice start stop step \<Rightarrow> SliceSerializer_Serialize start stop step
         | VEllipsis \<Rightarrow> Inr []
         | VError name args \<Rightarrow> writes
             [BytesSerializer_Serialize name,
              IntSerializer_Serialize (int (length args)),
              ByteSerializer_Serialize (SEQ_ID_MAP T_tuple),
              writes (map Serialize args)]))"
  by pat_completeness auto
termination
proof (relation "measure size")
  show "wf (measure size)" by simp
next
  fix obj se k xs x
  assume "obj = VSeq k xs" "x \<in> set xs"
  then show "(x, obj) \<in> measure size"
    by (simp add: size_list_estimation' less_Suc_eq_le)
next
  fix obj se kvs pair
  assume "obj = VMap kvs" "pair \<in> set (py_sorted kvs)"
  then show "(fst pair, obj) \<in> measure size"
    by (cases pair) (simp add: size_item_fst)
next
  fix obj se kvs pair
  assume "obj = VMap kvs" "pair \<in> set (py_sorted kvs)"
  then show "(snd pair, obj) \<in> measure size"
    by (cases pair) (simp add: size_item_snd)
next
  fix obj se name args x
  assume "obj = VError name args" "x \<in> set args"
  then show "(x, obj) \<in> measure size"
    by (simp add: size_list_estimation' less_Suc_eq_le)
qed

section \<open>serialize.py: \<^verbatim>\<open>Deserialize\<close>\<close>

text \<open>
  \<^verbatim>\<open>getattr(exceptions, ename, None)\<close> and the call of what it finds.
  \<^item> \<open>plain_exceptions\<close>: the exception classes of the module \<^verbatim>\<open>exceptions\<close> of
    Python 2.7 whose constructor keeps the arguments as they are given; the instance
    is the class name and the arguments.
  \<^item> \<open>other_attributes\<close>: the other names that \<^verbatim>\<open>getattr\<close> can find there. These are
    the exception classes whose constructor checks or rearranges its arguments, the
    classes that exist on some platforms only, and the attributes of the module
    object itself. What the code returns or raises for them (the call of the
    attribute, or the \<^verbatim>\<open>RemoteException\<close> when the attribute is absent or false) is
    given by the runtime.
  \<^item> Any other name is not found, and the result is a \<^verbatim>\<open>RemoteException\<close> with the
    name put before the arguments.
\<close>

definition plain_exceptions :: "string list" where
  "plain_exceptions =
     [''ArithmeticError'', ''AssertionError'', ''AttributeError'', ''BaseException'',
      ''BufferError'', ''BytesWarning'', ''DeprecationWarning'', ''EOFError'',
      ''Exception'', ''FloatingPointError'', ''FutureWarning'', ''GeneratorExit'',
      ''ImportError'', ''ImportWarning'', ''IndentationError'', ''IndexError'', ''KeyError'',
      ''KeyboardInterrupt'', ''LookupError'', ''MemoryError'', ''NameError'',
      ''NotImplementedError'', ''OverflowError'', ''PendingDeprecationWarning'',
      ''ReferenceError'', ''RuntimeError'', ''RuntimeWarning'', ''StandardError'',
      ''StopIteration'', ''SyntaxError'', ''SyntaxWarning'', ''SystemError'', ''SystemExit'',
      ''TabError'', ''TypeError'', ''UnboundLocalError'', ''UnicodeError'', ''UnicodeWarning'',
      ''UserWarning'', ''ValueError'', ''Warning'', ''ZeroDivisionError'']"

definition other_attributes :: "string list" where
  "other_attributes =
     [''EnvironmentError'', ''IOError'', ''OSError'', ''UnicodeDecodeError'',
      ''UnicodeEncodeError'', ''UnicodeTranslateError'', ''WindowsError'', ''VMSError'',
      ''__class__'', ''__delattr__'', ''__dict__'', ''__doc__'', ''__format__'',
      ''__getattribute__'', ''__hash__'', ''__init__'', ''__name__'', ''__new__'',
      ''__package__'', ''__reduce__'', ''__reduce_ex__'', ''__repr__'', ''__setattr__'',
      ''__sizeof__'', ''__str__'', ''__subclasshook__'']"

definition make_error :: "runtime \<Rightarrow> string \<Rightarrow> value list \<Rightarrow> error + value" where
  "make_error rt ename args =
     (if ename \<in> set plain_exceptions then Inr (VError ename args)
      else if ename \<in> set other_attributes then construct rt ename args
      else Inr (VError ''RemoteException'' (VBytes ename # args)))"

text \<open>\<^verbatim>\<open>tp(ret)\<close> for the type found in \<open>SEQ_TYPE_MAP\<close>.\<close>

definition make_seq :: "runtime \<Rightarrow> seqkind \<Rightarrow> value list \<Rightarrow> error + value" where
  "make_seq rt tp ret = (case tp of T_list \<Rightarrow> Inr (VSeq T_list ret)
     | T_tuple \<Rightarrow> Inr (VSeq T_tuple ret) | T_set \<Rightarrow> py_set rt ret)"

text \<open>The elements of a sequence, as \<^verbatim>\<open>tuple(x)\<close> and the unpacking \<^verbatim>\<open>key, val = x\<close> see them.\<close>

definition elements :: "value \<Rightarrow> value list" where
  "elements v = (case v of VSeq k xs \<Rightarrow> xs | _ \<Rightarrow> [])"

definition unpack_pair :: "value \<Rightarrow> error + value \<times> value" where
  "unpack_pair v = (case elements v of [key, val] \<Rightarrow> Inr (key, val)
     | _ \<Rightarrow> Inl (ValueError ''wrong number of values to unpack''))"

text \<open>
  \<open>Deserialize\<close> reads a tag and calls the \<^verbatim>\<open>Deserialize\<close> of the class registered
  in \<open>TAGS\<close>; it returns the object and the rest of the stream.
  \<open>SequenceSerializer_Deserialize\<close> and the two loops (\<^verbatim>\<open>for i in xrange(l)\<close> of the
  sequence and of the map) are the functions it is recursive with.
\<close>

function Deserialize :: "runtime \<Rightarrow> string \<Rightarrow> error + value \<times> string"
  and SequenceSerializer_Deserialize :: "runtime \<Rightarrow> string \<Rightarrow> error + value \<times> string"
  and seq_loop :: "runtime \<Rightarrow> nat \<Rightarrow> string \<Rightarrow> error + value list \<times> string"
  and map_loop :: "runtime \<Rightarrow> nat \<Rightarrow> (value \<times> value) list \<Rightarrow> string \<Rightarrow> error + (value \<times> value) list \<times> string"
where
  "Deserialize rt fin = (case ByteSerializer_Deserialize fin of
       Inl e \<Rightarrow> Inl e
     | Inr (tag, fin1) \<Rightarrow> (case map_of TAGS tag of
         None \<Rightarrow> Inl KeyError
       | Some BaseSerializer \<Rightarrow> Inl (NotImplementedError ''BaseSerializer does not support deserialization.'')
       | Some IntSerializer \<Rightarrow> (case IntSerializer_Deserialize fin1 of
             Inl e \<Rightarrow> Inl e | Inr (i, fin2) \<Rightarrow> Inr (VInt i, fin2))
       | Some LongSerializer \<Rightarrow> (case LongSerializer_Deserialize fin1 of
             Inl e \<Rightarrow> Inl e | Inr (i, fin2) \<Rightarrow> Inr (VLong i, fin2))
       | Some FloatSerializer \<Rightarrow> (case FloatSerializer_Deserialize fin1 of
             Inl e \<Rightarrow> Inl e | Inr (w, fin2) \<Rightarrow> Inr (VFloat w, fin2))
       | Some BytesSerializer \<Rightarrow> (case BytesSerializer_Deserialize fin1 of
             Inl e \<Rightarrow> Inl e | Inr (s, fin2) \<Rightarrow> Inr (VBytes s, fin2))
       | Some TextSerializer \<Rightarrow> TextSerializer_Deserialize rt fin1
       | Some BoolSerializer \<Rightarrow> (case BoolSerializer_Deserialize fin1 of
             Inl e \<Rightarrow> Inl e | Inr (b, fin2) \<Rightarrow> Inr (VBool b, fin2))
       | Some SequenceSerializer \<Rightarrow> SequenceSerializer_Deserialize rt fin1
       | Some MapSerializer \<Rightarrow> (case IntSerializer_Deserialize fin1 of
             Inl e \<Rightarrow> Inl e
           | Inr (l, fin2) \<Rightarrow> (case map_loop rt (nat l) [] fin2 of
                 Inl e \<Rightarrow> Inl e | Inr (ret, fin3) \<Rightarrow> Inr (VMap (dict_order rt ret), fin3)))
       | Some ByteSerializer \<Rightarrow> (case ByteSerializer_Deserialize fin1 of
             Inl e \<Rightarrow> Inl e | Inr (i, fin2) \<Rightarrow> Inr (VInt i, fin2))
       | Some NoneSerializer \<Rightarrow> Inr (VNone, fin1)
       | Some SliceSerializer \<Rightarrow> SliceSerializer_Deserialize fin1
       | Some EllipsisSerializer \<Rightarrow> Inr (VEllipsis, fin1)
       | Some ErrorSerializer \<Rightarrow> (case BytesSerializer_Deserialize fin1 of
             Inl e \<Rightarrow> Inl e
           | Inr (ename, fin2) \<Rightarrow> (case SequenceSerializer_Deserialize rt fin2 of
                 Inl e \<Rightarrow> Inl e
               | Inr (args, fin3) \<Rightarrow> (case make_error rt ename (elements args) of
                     Inl e \<Rightarrow> Inl e | Inr v \<Rightarrow> Inr (v, fin3))))))"
| "SequenceSerializer_Deserialize rt fin = (case IntSerializer_Deserialize fin of
       Inl e \<Rightarrow> Inl e
     | Inr (l, fin1) \<Rightarrow> (case ByteSerializer_Deserialize fin1 of
         Inl e \<Rightarrow> Inl e
       | Inr (b, fin2) \<Rightarrow> (case SEQ_TYPE_MAP b of
           None \<Rightarrow> Inl KeyError
         | Some tp \<Rightarrow> (case seq_loop rt (nat l) fin2 of
             Inl e \<Rightarrow> Inl e
           | Inr (ret, fin3) \<Rightarrow> (case make_seq rt tp ret of
                 Inl e \<Rightarrow> Inl e | Inr v \<Rightarrow> Inr (v, fin3))))))"
| "seq_loop rt 0 fin = Inr ([], fin)"
| "seq_loop rt (Suc n) fin = (case Deserialize rt fin of
       Inl e \<Rightarrow> Inl e
     | Inr (item, fin1) \<Rightarrow> (case seq_loop rt n fin1 of
         Inl e \<Rightarrow> Inl e | Inr (ret, fin2) \<Rightarrow> Inr (item # ret, fin2)))"
| "map_loop rt 0 ret fin = Inr (ret, fin)"
| "map_loop rt (Suc n) ret fin = (case SequenceSerializer_Deserialize rt fin of
       Inl e \<Rightarrow> Inl e
     | Inr (pair, fin1) \<Rightarrow> (case unpack_pair pair of
         Inl e \<Rightarrow> Inl e
       | Inr (key, val) \<Rightarrow> (case dict_setitem ret key val of
           Inl e \<Rightarrow> Inl e
         | Inr ret' \<Rightarrow> map_loop rt n ret' fin1)))"
  by pat_completeness auto


lemma ByteSerializer_Deserialize_shrinks:
  "ByteSerializer_Deserialize fin = Inr (b, fin') \<Longrightarrow> length fin' < length fin"
  by (cases fin) (auto simp: ByteSerializer_Deserialize_def read_def unpack_B_def
      split: sum.splits list.splits)

lemma IntSerializer_Deserialize_shrinks:
  "IntSerializer_Deserialize fin = Inr (i, fin') \<Longrightarrow> length fin' < length fin"
  by (auto simp: IntSerializer_Deserialize_def read_def unpack_l_def split: sum.splits if_splits)

lemma read_shrinks: "read l fin = (s, fin') \<Longrightarrow> length fin' \<le> length fin"
  by (auto simp: read_def split: if_splits)

lemma BytesSerializer_Deserialize_shrinks:
  "BytesSerializer_Deserialize fin = Inr (s, fin') \<Longrightarrow> length fin' < length fin"
  by (auto simp: BytesSerializer_Deserialize_def split: sum.splits
      dest!: IntSerializer_Deserialize_shrinks read_shrinks)

lemma LongSerializer_Deserialize_shrinks:
  "LongSerializer_Deserialize fin = Inr (i, fin') \<Longrightarrow> length fin' < length fin"
  by (auto simp: LongSerializer_Deserialize_def split: sum.splits
      dest!: BytesSerializer_Deserialize_shrinks)

lemma FloatSerializer_Deserialize_shrinks:
  "FloatSerializer_Deserialize fin = Inr (w, fin') \<Longrightarrow> length fin' < length fin"
  by (auto simp: FloatSerializer_Deserialize_def read_def unpack_d_def split: sum.splits if_splits)

lemma TextSerializer_Deserialize_shrinks:
  "TextSerializer_Deserialize rt fin = Inr (s, fin') \<Longrightarrow> length fin' < length fin"
  by (fastforce simp: TextSerializer_Deserialize_def split: sum.splits if_splits
      dest!: BytesSerializer_Deserialize_shrinks)

lemma BoolSerializer_Deserialize_shrinks:
  "BoolSerializer_Deserialize fin = Inr (b, fin') \<Longrightarrow> length fin' < length fin"
  by (auto simp: BoolSerializer_Deserialize_def split: sum.splits
      dest!: IntSerializer_Deserialize_shrinks)

lemma SliceSerializer_Deserialize_shrinks:
  "SliceSerializer_Deserialize fin = Inr (v, fin') \<Longrightarrow> length fin' < length fin"
  by (fastforce simp: SliceSerializer_Deserialize_def split: sum.splits
      dest!: IntSerializer_Deserialize_shrinks)

lemmas leaf_shrinks =
  ByteSerializer_Deserialize_shrinks IntSerializer_Deserialize_shrinks
  BytesSerializer_Deserialize_shrinks LongSerializer_Deserialize_shrinks
  FloatSerializer_Deserialize_shrinks TextSerializer_Deserialize_shrinks
  BoolSerializer_Deserialize_shrinks SliceSerializer_Deserialize_shrinks

lemma Deserialize_shrinks_dom:
  "Deserialize_SequenceSerializer_Deserialize_seq_loop_map_loop_dom (Inl (Inl (rt, fin))) \<Longrightarrow>
     Deserialize rt fin = Inr (v, fin') \<Longrightarrow> length fin' < length fin"
  "Deserialize_SequenceSerializer_Deserialize_seq_loop_map_loop_dom (Inl (Inr (rt, fin))) \<Longrightarrow>
     SequenceSerializer_Deserialize rt fin = Inr (v, fin') \<Longrightarrow> length fin' < length fin"
  "Deserialize_SequenceSerializer_Deserialize_seq_loop_map_loop_dom (Inr (Inl (rt, n, fin))) \<Longrightarrow>
     seq_loop rt n fin = Inr (vs, fin') \<Longrightarrow> length fin' \<le> length fin"
  "Deserialize_SequenceSerializer_Deserialize_seq_loop_map_loop_dom (Inr (Inr (rt, n, ret, fin))) \<Longrightarrow>
     map_loop rt n ret fin = Inr (r, fin') \<Longrightarrow> length fin' \<le> length fin"
proof (induction rt fin and rt fin and rt n fin and rt n ret fin arbitrary: v fin' and v fin' and vs fin' and r fin'
    rule: Deserialize_SequenceSerializer_Deserialize_seq_loop_map_loop.pinduct)
  case (1 rt fin)
  note dom = "1.hyps"
  note eq = "1.prems" [unfolded Deserialize.psimps [OF dom]]
  show ?case
  proof (cases "ByteSerializer_Deserialize fin")
    case (Inl e)
    with eq show ?thesis by simp
  next
    case (Inr p)
    obtain tag fin1 where p: "p = (tag, fin1)" by (cases p)
    note b = Inr [unfolded p]
    from b have l1: "length fin1 < length fin"
      by (rule ByteSerializer_Deserialize_shrinks)
    have "length fin' \<le> length fin1"
    proof (cases "map_of TAGS tag")
      case None
      with eq b show ?thesis by simp
    next
      case (Some se)
      show ?thesis
      proof (cases se)
        case SequenceSerializer
        with eq b Some have "SequenceSerializer_Deserialize rt fin1 = Inr (v, fin')" by simp
        with "1.IH"(1) [OF b refl Some SequenceSerializer] show ?thesis
          by (simp add: less_imp_le)
      next
        case MapSerializer
        with eq b Some obtain l fin2 ret where
          i: "IntSerializer_Deserialize fin1 = Inr (l, fin2)" and
          m: "map_loop rt (nat l) [] fin2 = Inr (ret, fin')"
          by (auto split: sum.splits prod.splits)
        from "1.IH"(2) [OF b refl Some MapSerializer i refl m]
          IntSerializer_Deserialize_shrinks [OF i]
        show ?thesis by simp
      next
        case ErrorSerializer
        with eq b Some obtain ename fin2 args where
          i: "BytesSerializer_Deserialize fin1 = Inr (ename, fin2)" and
          m: "SequenceSerializer_Deserialize rt fin2 = Inr (args, fin')"
          by (auto split: sum.splits prod.splits)
        from "1.IH"(3) [OF b refl Some ErrorSerializer i refl m]
          BytesSerializer_Deserialize_shrinks [OF i]
        show ?thesis by simp
      qed (use eq b Some in \<open>auto split: sum.splits prod.splits dest!: leaf_shrinks\<close>)
    qed
    with l1 show ?thesis by simp
  qed
next
  case (2 rt fin)
  note dom = "2.hyps"
  note eq = "2.prems" [unfolded SequenceSerializer_Deserialize.psimps [OF dom]]
  from eq obtain l fin1 b fin2 tp ret where
    i: "IntSerializer_Deserialize fin = Inr (l, fin1)" and
    bb: "ByteSerializer_Deserialize fin1 = Inr (b, fin2)" and
    tp: "SEQ_TYPE_MAP b = Some tp" and
    lp: "seq_loop rt (nat l) fin2 = Inr (ret, fin')"
    by (auto split: sum.splits prod.splits option.splits)
  from "2.IH" [OF i refl bb refl tp lp]
    IntSerializer_Deserialize_shrinks [OF i] ByteSerializer_Deserialize_shrinks [OF bb]
  show ?case by simp
next
  case (3 rt fin)
  then show ?case by (simp add: seq_loop.psimps)
next
  case (4 rt n fin)
  note eq = "4.prems" [unfolded seq_loop.psimps(2) [OF "4.hyps"]]
  from eq obtain item fin1 ret where
    d: "Deserialize rt fin = Inr (item, fin1)" and
    lp: "seq_loop rt n fin1 = Inr (ret, fin')"
    by (auto split: sum.splits prod.splits)
  from "4.IH"(1) [OF d] "4.IH"(2) [OF d refl lp]
  show ?case by simp
next
  case (5 rt ret fin)
  then show ?case by (simp add: map_loop.psimps)
next
  case (6 rt n ret fin)
  note eq = "6.prems" [unfolded map_loop.psimps(2) [OF "6.hyps"]]
  from eq obtain pair fin1 key val ret' where
    d: "SequenceSerializer_Deserialize rt fin = Inr (pair, fin1)" and
    u: "unpack_pair pair = Inr (key, val)" and
    s: "dict_setitem ret key val = Inr ret'" and
    lp: "map_loop rt n ret' fin1 = Inr (r, fin')"
    by (auto split: sum.splits prod.splits)
  from "6.IH"(1) [OF d] "6.IH"(2) [OF d refl u refl s lp]
  show ?case by simp
qed

termination Deserialize
  apply (relation "inv_image (less_than <*lex*> less_than <*lex*> less_than)
    (\<lambda>x. case x of
        Inl (Inl (rt, fin)) \<Rightarrow> (length fin, 0::nat, 0::nat)
      | Inl (Inr (rt, fin)) \<Rightarrow> (length fin, 0, 0)
      | Inr (Inl (rt, n, fin)) \<Rightarrow> (length fin, 1, n)
      | Inr (Inr (rt, n, ret, fin)) \<Rightarrow> (length fin, 1, n))")
         apply (intro wf_inv_image wf_lex_prod wf_less_than)
        apply (auto dest!: leaf_shrinks dest: Deserialize_shrinks_dom(1,2))
  done

declare Deserialize.simps [simp del] SequenceSerializer_Deserialize.simps [simp del]

section \<open>packet.py\<close>

text \<open>
  A \<^verbatim>\<open>Packet\<close> instance: the two entries its \<^verbatim>\<open>__dict__\<close> can hold. \<open>None\<close> is an
  instance that lacks the attribute. \<open>attrs\<close> is a dict with \<^verbatim>\<open>str\<close> keys, held as
  the list of its items.
\<close>

record packet =
  cmd :: "value option"
  attrs :: "(string \<times> value) list option"

definition Packet_init :: "value \<Rightarrow> (string \<times> value) list \<Rightarrow> packet" where
  "Packet_init c kwargs = \<lparr>cmd = Some c, attrs = Some kwargs\<rparr>"

text \<open>
  What a name in a module resolves to: a module, or a class with the integer
  constants of its body. The global names of \<^verbatim>\<open>packet.py\<close> are the imported module
  and the class it defines; \<open>CMD\<close> is a class of \<^verbatim>\<open>service.py\<close>.
\<close>

datatype binding = Module | Class "(string \<times> int) list"

definition class_attr :: "binding \<Rightarrow> string \<Rightarrow> int option" where
  "class_attr b name = (case b of Module \<Rightarrow> None | Class consts \<Rightarrow> map_of consts name)"

definition CMD :: binding where
  "CMD = Class [(''SYNC'', 0), (''DESYNC'', 1), (''PULL'', 2), (''RESOLVE'', 3), (''LIST'', 4), (''PUSH'', 5)]"

definition packet_globals :: "(string \<times> binding) list" where
  "packet_globals = [(''serialize'', Module), (''Packet'', Class [])]"

definition service_globals :: "(string \<times> binding) list" where
  "service_globals =
     [(''threading'', Module), (''Queue'', Module), (''socket'', Module), (''select'', Module),
      (''traceback'', Module), (''serialize'', Module), (''packet'', Module), (''proxy'', Module),
      (''NOMError'', Class []), (''LoggedSocket'', Class []), (''Deferred'', Class []),
      (''DeferredResult'', Class []), (''ObjectTranslator'', Class [(''__tag__'', 255)]),
      (''RemoteReference'', Class []), (''CMD'', CMD), (''Client'', Class []),
      (''Authorizor'', Class []), (''Service'', Class [(''BUFSIZE'', 65536), (''XID'', 0)])]"

definition dict_of_attrs :: "(string \<times> value) list \<Rightarrow> value" where
  "dict_of_attrs kwargs = VMap (map (\<lambda>(k, v). (VBytes k, v)) kwargs)"

text \<open>
  \<^verbatim>\<open>Packet.__getattr__\<close>, called when the instance lacks the attribute. The result is
  the value and the instance after the assignment the method makes.
\<close>

definition Packet_getattr_hook :: "packet \<Rightarrow> string \<Rightarrow> error + value \<times> packet" where
  "Packet_getattr_hook self attr =
     (if attr = ''cmd'' then
        (case map_of packet_globals ''CMD'' of
           None \<Rightarrow> Inl (NameError ''CMD'')
         | Some cls \<Rightarrow> (case class_attr cls ''KEEPALIVE'' of
             None \<Rightarrow> Inl (AttributeError ''KEEPALIVE'')
           | Some c \<Rightarrow> Inr (VInt c, self\<lparr>cmd := Some (VInt c)\<rparr>)))
      else if attr = ''attrs'' then Inr (VMap [], self\<lparr>attrs := Some []\<rparr>)
      else (case attrs self of
           None \<Rightarrow> Inl KeyError
         | Some d \<Rightarrow> (case map_of d attr of None \<Rightarrow> Inl KeyError | Some v \<Rightarrow> Inr (v, self))))"

text \<open>
  Reading \<^verbatim>\<open>pkt.attr\<close>: the instance dictionary first, then the hook. This is the
  lookup for the names the code reads from a packet (\<^verbatim>\<open>cmd\<close>, \<^verbatim>\<open>attrs\<close>, \<^verbatim>\<open>xid\<close>,
  \<^verbatim>\<open>attr\<close>, \<^verbatim>\<open>result\<close>, ...), none of which the class defines. A name that the
  class or \<^verbatim>\<open>object\<close> defines (\<^verbatim>\<open>Has\<close>, \<^verbatim>\<open>Make\<close>, \<^verbatim>\<open>FromStr\<close>, \<^verbatim>\<open>__init__\<close>, ...) is found
  there before the hook is asked; such names are not read through this function.
\<close>

definition Packet_getattr :: "packet \<Rightarrow> string \<Rightarrow> error + value \<times> packet" where
  "Packet_getattr self attr =
     (if attr = ''cmd'' \<and> cmd self \<noteq> None then Inr (the (cmd self), self)
      else if attr = ''attrs'' \<and> attrs self \<noteq> None then Inr (dict_of_attrs (the (attrs self)), self)
      else Packet_getattr_hook self attr)"

definition Has :: "packet \<Rightarrow> string list \<Rightarrow> bool" where
  "Has self names = (let d = (case attrs self of None \<Rightarrow> [] | Some d \<Rightarrow> d)
     in list_all (\<lambda>attr. map_of d attr \<noteq> None) names)"

text \<open>
  \<^verbatim>\<open>chr(self.cmd)\<close>: the argument is taken as an integer when it is an int, a long or
  a boolean; any other value is a \<^verbatim>\<open>TypeError\<close>.
\<close>

definition num_of :: "value \<Rightarrow> int option" where
  "num_of v = (case v of VInt i \<Rightarrow> Some i | VLong i \<Rightarrow> Some i
     | VBool b \<Rightarrow> Some (if b then 1 else 0) | _ \<Rightarrow> None)"

definition py_chr :: "value \<Rightarrow> error + string" where
  "py_chr v = (case num_of v of
       None \<Rightarrow> Inl (TypeError ''an integer is required'')
     | Some i \<Rightarrow> (if 0 \<le> i \<and> i < 256 then Inr [char_of i] else Inl (ValueError ''chr() arg not in range(256)'')))"

definition Packet_str :: "packet \<Rightarrow> error + string" where
  "Packet_str self = (case Packet_getattr self ''cmd'' of
       Inl e \<Rightarrow> Inl e
     | Inr (c, self1) \<Rightarrow> (case py_chr c of
         Inl e \<Rightarrow> Inl e
       | Inr b \<Rightarrow> (case Packet_getattr self1 ''attrs'' of
           Inl e \<Rightarrow> Inl e
         | Inr (d, self2) \<Rightarrow> write2 (Inr b) (Serialize d))))"

section \<open>service.py\<close>

subsection \<open>Deferred results\<close>

text \<open>
  The \<^verbatim>\<open>onwait\<close> action that \<^verbatim>\<open>SendPacket\<close> builds captures the command, the xid,
  the keyword arguments and the address of the client.
\<close>

record send_closure =
  sc_cmd :: "value"
  sc_xid :: int
  sc_kwargs :: "(string \<times> value) list"
  sc_addr :: "value"

record deferred_result =
  xid :: int
  result :: "packet option"
  ready :: bool
  queue :: "packet list"
  onwait :: "send_closure option"

definition DeferredResult_init :: "int \<Rightarrow> send_closure option \<Rightarrow> deferred_result" where
  "DeferredResult_init x ow = \<lparr>xid = x, result = None, ready = False, queue = [], onwait = ow\<rparr>"

text \<open>The filter \<^verbatim>\<open>lambda obj: obj.xid == self.xid\<close>.\<close>

definition filt :: "deferred_result \<Rightarrow> packet \<Rightarrow> error + bool" where
  "filt self obj = (case Packet_getattr obj ''xid'' of
       Inl e \<Rightarrow> Inl e
     | Inr (x, _) \<Rightarrow> Inr (py_eq x (VInt (xid self))))"

definition Accept :: "deferred_result \<Rightarrow> packet \<Rightarrow> error + deferred_result" where
  "Accept self obj = (case filt self obj of
       Inl e \<Rightarrow> Inl e
     | Inr True \<Rightarrow> Inr (self\<lparr>result := Some obj, ready := True, queue := queue self @ [obj]\<rparr>)
     | Inr False \<Rightarrow> Inr (self\<lparr>queue := queue self @ [obj]\<rparr>))"

text \<open>
  \<^verbatim>\<open>GetResult\<close>. In the branch taken when the packet has an error, the source
  evaluates \<^verbatim>\<open>pkt.result.error\<close>; \<open>pkt\<close> is neither a local of the method nor a
  global of the module.
\<close>

definition GetResult :: "deferred_result \<Rightarrow> error + value" where
  "GetResult self =
     (if \<not> ready self then Inl (RuntimeError ''Value not available yet'')
      else (case result self of
          None \<Rightarrow> Inl (AttributeError ''Has'')
        | Some r \<Rightarrow>
            (if Has r [''error''] then
               (case map_of service_globals ''pkt'' of
                  None \<Rightarrow> Inl (NameError ''pkt'')
                | Some b \<Rightarrow> Inl (AttributeError ''result''))
             else (case Packet_getattr r ''result'' of Inl e \<Rightarrow> Inl e | Inr (v, _) \<Rightarrow> Inr v))))"

subsection \<open>The authorizer\<close>

definition CanClientSync :: "'c \<Rightarrow> bool" where
  "CanClientSync client = True"

text \<open>
  \<^verbatim>\<open>startswith\<close> is a method of \<^verbatim>\<open>str\<close> and \<^verbatim>\<open>unicode\<close>; no other of the values above
  has it. (A proxy, which is not one of these values, forwards every attribute to its
  remote object.)
\<close>

definition startswith :: "value \<Rightarrow> string \<Rightarrow> error + bool" where
  "startswith v prefix = (case str_of v of
       None \<Rightarrow> Inl (AttributeError ''startswith'')
     | Some s \<Rightarrow> Inr (take (length prefix) s = prefix))"

definition CanClientAccess :: "'c \<Rightarrow> 'o \<Rightarrow> packet \<Rightarrow> error + bool" where
  "CanClientAccess client obj pkt =
     (if Has pkt [''attr''] then
        (case Packet_getattr pkt ''attr'' of
           Inl e \<Rightarrow> Inl e
         | Inr (a, _) \<Rightarrow> (case startswith a ''_'' of Inl e \<Rightarrow> Inl e | Inr b \<Rightarrow> Inr (\<not> b)))
      else Inr True)"

subsection \<open>The transaction counter\<close>

text \<open>
  \<^verbatim>\<open>Service.XID\<close> is a class attribute holding a Python integer, initially 0.
  \<^verbatim>\<open>NewXID\<close> stores \<^verbatim>\<open>(XID+1)&0xffffffff\<close> and returns the stored value minus one.
  The model returns the pair (returned xid, new counter).
\<close>

definition XID_init :: int where
  "XID_init = 0"

definition NewXID :: "int \<Rightarrow> int \<times> int" where
  "NewXID XID = (let XID' = (XID + 1) AND 0xffffffff in (XID' - 1, XID'))"

text \<open>The counter after \<open>n\<close> calls, starting from the initial class attribute.\<close>

fun XID_after :: "nat \<Rightarrow> int" where
  "XID_after 0 = XID_init"
| "XID_after (Suc n) = snd (NewXID (XID_after n))"

subsection \<open>The service\<close>

text \<open>
  The state the methods below work on: the attributes of the \<^verbatim>\<open>Service\<close> instance
  (\<open>omap\<close> maps \<^verbatim>\<open>id(obj)\<close> to the object, \<open>clients\<close> is a dict keyed by address),
  the class attributes \<^verbatim>\<open>Service.XID\<close> and \<^verbatim>\<open>Deferred.WAITING\<close> (the waiters, named
  by their xid), and a log of the effects in the order they happen: an assignment to
  \<open>outstanding\<close>, an addition to \<open>WAITING\<close>, a datagram handed to \<^verbatim>\<open>sock.sendto\<close>.
\<close>

datatype event = Ev_outstanding int | Ev_waiting int | Ev_sendto string "value"

record client =
  cli_addr :: "value"

record 'obj service =
  addr :: "string \<times> int"
  omap :: "int \<rightharpoonup> 'obj"
  pubmap :: "string \<rightharpoonup> int"
  outstanding :: "int \<rightharpoonup> deferred_result"
  clients :: "(value \<times> client) list"
  XID :: int
  WAITING :: "int list"
  log :: "event list"

text \<open>
  \<open>addr\<close> is what \<^verbatim>\<open>getsockname()\<close> returns for the bound socket: the pair of a host
  string and a port number. \<open>addr_value\<close> is that tuple as a Python object.
\<close>

definition addr_value :: "'obj service \<Rightarrow> value" where
  "addr_value self = VSeq T_tuple [VBytes (fst (addr self)), VInt (snd (addr self))]"

text \<open>
  The attributes \<^verbatim>\<open>__init__\<close> sets, for the address the socket is bound to.
  \<^verbatim>\<open>Service.XID\<close> and \<^verbatim>\<open>Deferred.WAITING\<close> are class attributes that \<^verbatim>\<open>__init__\<close>
  does not touch: a new service finds them as the process left them, and they are
  arguments here (\<open>XID_init\<close> and no waiter for the first service of a process).
\<close>

definition Service_init :: "string \<times> int \<Rightarrow> int \<Rightarrow> int list \<Rightarrow> 'obj service" where
  "Service_init a class_XID class_WAITING =
     \<lparr>addr = a, omap = Map.empty, pubmap = Map.empty, outstanding = Map.empty,
      clients = [], XID = class_XID, WAITING = class_WAITING, log = []\<rparr>"

definition Register :: "'obj service \<Rightarrow> 'obj \<Rightarrow> int \<Rightarrow> string \<Rightarrow> 'obj service" where
  "Register self obj id_obj name =
     self\<lparr>omap := (omap self)(id_obj \<mapsto> obj), pubmap := (pubmap self)(name \<mapsto> id_obj)\<rparr>"

text \<open>\<^verbatim>\<open>del d[k]\<close> raises \<^verbatim>\<open>KeyError\<close> when the key is absent.\<close>

definition del_item :: "('k \<rightharpoonup> 'v) \<Rightarrow> 'k \<Rightarrow> error + ('k \<rightharpoonup> 'v)" where
  "del_item d k = (case d k of None \<Rightarrow> Inl KeyError | Some v \<Rightarrow> Inr (d(k := None)))"

definition Unregister :: "'obj service \<Rightarrow> string \<Rightarrow> error + 'obj service" where
  "Unregister self name = (case del_item (pubmap self) name of
       Inr d \<Rightarrow> Inr (self\<lparr>pubmap := d\<rparr>)
     | Inl KeyError \<Rightarrow> Inr self
     | Inl e \<Rightarrow> Inl e)"

text \<open>
  \<^verbatim>\<open>GetClient\<close>: the lookup hashes the address, so an unhashable address raises
  \<^verbatim>\<open>TypeError\<close>, which the \<^verbatim>\<open>except KeyError\<close> does not catch.
\<close>

definition dict_get :: "(value \<times> 'v) list \<Rightarrow> value \<Rightarrow> error + 'v" where
  "dict_get d k = (if \<not> hashable k then Inl (TypeError ''unhashable type'')
     else (case find (\<lambda>item. py_eq (fst item) k) d of None \<Rightarrow> Inl KeyError | Some item \<Rightarrow> Inr (snd item)))"

definition GetClient :: "'obj service \<Rightarrow> value \<Rightarrow> error + client \<times> 'obj service" where
  "GetClient self a = (case dict_get (clients self) a of
       Inr cli \<Rightarrow> Inr (cli, self)
     | Inl KeyError \<Rightarrow>
         (let cli = \<lparr>cli_addr = a\<rparr>
          in Inr (cli, self\<lparr>clients := dict_update a cli (clients self)\<rparr>))
     | Inl e \<Rightarrow> Inl e)"

text \<open>
  \<^verbatim>\<open>SendPacket\<close>: a new xid, the command taken out of the keyword arguments (or
  \<^verbatim>\<open>CMD.PULL\<close>), the deferred result with its \<^verbatim>\<open>onwait\<close> action, and the entry in
  \<open>outstanding\<close>.
\<close>

definition SendPacket :: "'obj service \<Rightarrow> client \<Rightarrow> (string \<times> value) list \<Rightarrow> deferred_result \<times> 'obj service" where
  "SendPacket self cli kwargs =
     (case NewXID (XID self) of (x, XID') \<Rightarrow>
        (let (c, kwargs') =
               (case map_of kwargs ''_cmd'' of
                  Some c \<Rightarrow> (c, filter (\<lambda>item. fst item \<noteq> ''_cmd'') kwargs)
                | None \<Rightarrow> (VInt (the (class_attr CMD ''PULL'')), kwargs));
             act = DeferredResult_init x
               (Some \<lparr>sc_cmd = c, sc_xid = x, sc_kwargs = kwargs', sc_addr = cli_addr cli\<rparr>)
         in (act, self\<lparr>XID := XID', outstanding := (outstanding self)(x \<mapsto> act),
                        log := log self @ [Ev_outstanding x]\<rparr>)))"

text \<open>
  The \<^verbatim>\<open>onwait\<close> action: \<^verbatim>\<open>self.sock.sendto(str(packet.Packet(cmd, xid=xid, **kwargs)), cli.addr)\<close>.
  The call of \<^verbatim>\<open>Packet\<close> is a \<^verbatim>\<open>TypeError\<close> when the keyword arguments hold a
  second \<open>xid\<close>, or a \<open>cmd\<close> or \<open>self\<close>, which are the positional parameters of
  \<^verbatim>\<open>__init__\<close>. The result is the state and the exception, if one is raised.
\<close>

definition run_onwait :: "'obj service \<Rightarrow> send_closure \<Rightarrow> 'obj service \<times> error option" where
  "run_onwait self c =
     (if map_of (sc_kwargs c) ''xid'' \<noteq> None \<or> map_of (sc_kwargs c) ''cmd'' \<noteq> None
         \<or> map_of (sc_kwargs c) ''self'' \<noteq> None
      then (self, Some (TypeError ''got multiple values for keyword argument''))
      else (case Packet_str (Packet_init (sc_cmd c) ((''xid'', VInt (sc_xid c)) # sc_kwargs c)) of
          Inl e \<Rightarrow> (self, Some e)
        | Inr data \<Rightarrow> (self\<lparr>log := log self @ [Ev_sendto data (sc_addr c)]\<rparr>, None)))"

text \<open>
  \<^verbatim>\<open>Deferred.Go\<close>, the first thing \<^verbatim>\<open>Deferred.Wait\<close> does before it blocks on the
  condition: the waiter is added to \<open>WAITING\<close>, then \<open>onwait\<close> is called.
\<close>

definition Go :: "'obj service \<Rightarrow> deferred_result \<Rightarrow> 'obj service \<times> error option" where
  "Go self d =
     (let self1 = self\<lparr>WAITING := (if xid d \<in> set (WAITING self) then WAITING self else WAITING self @ [xid d]),
                       log := log self @ [Ev_waiting (xid d)]\<rparr>
      in (case onwait d of None \<Rightarrow> (self1, None) | Some c \<Rightarrow> run_onwait self1 c))"

text \<open>
  \<^verbatim>\<open>DeferredResult.Wait\<close> up to the point where it blocks: nothing when the result is
  ready, \<^verbatim>\<open>Deferred.Wait\<close> (that is \<open>Go\<close>, then the wait on the condition) otherwise.
\<close>

definition Wait_enter :: "'obj service \<Rightarrow> deferred_result \<Rightarrow> 'obj service \<times> error option" where
  "Wait_enter self d = (if \<not> ready d then Go self d else (self, None))"

text \<open>The request methods of \<^verbatim>\<open>Service\<close>.\<close>

definition Service_GetAttr :: "'obj service \<Rightarrow> client \<Rightarrow> int \<Rightarrow> value \<Rightarrow> deferred_result \<times> 'obj service" where
  "Service_GetAttr self cli oid a =
     SendPacket self cli [(''op'', VBytes ''GetAttr''), (''oid'', VLong oid), (''attr'', a)]"

definition Service_SetAttr :: "'obj service \<Rightarrow> client \<Rightarrow> int \<Rightarrow> value \<Rightarrow> value \<Rightarrow> deferred_result \<times> 'obj service" where
  "Service_SetAttr self cli oid a val =
     SendPacket self cli [(''op'', VBytes ''SetAttr''), (''oid'', VLong oid), (''attr'', a), (''val'', val)]"

definition Service_DelAttr :: "'obj service \<Rightarrow> client \<Rightarrow> int \<Rightarrow> value \<Rightarrow> deferred_result \<times> 'obj service" where
  "Service_DelAttr self cli oid a =
     SendPacket self cli [(''op'', VBytes ''DelAttr''), (''oid'', VLong oid), (''attr'', a)]"

definition Service_GetItem :: "'obj service \<Rightarrow> client \<Rightarrow> int \<Rightarrow> value \<Rightarrow> deferred_result \<times> 'obj service" where
  "Service_GetItem self cli oid item =
     SendPacket self cli [(''op'', VBytes ''GetItem''), (''oid'', VLong oid), (''item'', item)]"

definition Service_SetItem :: "'obj service \<Rightarrow> client \<Rightarrow> int \<Rightarrow> value \<Rightarrow> value \<Rightarrow> deferred_result \<times> 'obj service" where
  "Service_SetItem self cli oid item val =
     SendPacket self cli [(''op'', VBytes ''SetItem''), (''oid'', VLong oid), (''item'', item), (''val'', val)]"

definition Service_DelItem :: "'obj service \<Rightarrow> client \<Rightarrow> int \<Rightarrow> value \<Rightarrow> deferred_result \<times> 'obj service" where
  "Service_DelItem self cli oid item =
     SendPacket self cli [(''op'', VBytes ''DelItem''), (''oid'', VLong oid), (''item'', item)]"

text \<open>
  \<^verbatim>\<open>getattr(srv, name)\<close> for a method taking \<^verbatim>\<open>(cli, oid, item)\<close>: the methods of
  that shape that the class defines. Neither \<^verbatim>\<open>Service\<close> nor \<^verbatim>\<open>threading.Thread\<close> has
  an attribute of another spelling of these names.
\<close>

definition Service_item_method ::
  "string \<Rightarrow> ('obj service \<Rightarrow> client \<Rightarrow> int \<Rightarrow> value \<Rightarrow> deferred_result \<times> 'obj service) option" where
  "Service_item_method name = map_of
     [(''GetAttr'', Service_GetAttr), (''DelAttr'', Service_DelAttr),
      (''GetItem'', Service_GetItem), (''DelItem'', Service_DelItem)] name"

subsection \<open>Remote references\<close>

record remote_reference =
  ref_cli :: client
  ref_oid :: int
  blocking :: bool
  pushdata :: "(string \<times> value) list"

definition RemoteReference_init :: "client \<Rightarrow> int \<Rightarrow> remote_reference" where
  "RemoteReference_init cli oid = \<lparr>ref_cli = cli, ref_oid = oid, blocking = True, pushdata = []\<rparr>"

text \<open>
  A call \<^verbatim>\<open>self.srv.NAME(self.cli, self.oid, item)\<close>, followed by \<^verbatim>\<open>.Wait()\<close> in
  blocking mode (modelled up to the point where \<^verbatim>\<open>Wait\<close> blocks).
\<close>

definition call_item_method ::
  "remote_reference \<Rightarrow> 'obj service \<Rightarrow> string \<Rightarrow> value \<Rightarrow> error + deferred_result \<times> 'obj service" where
  "call_item_method self srv name item = (case Service_item_method name of
       None \<Rightarrow> Inl (AttributeError name)
     | Some m \<Rightarrow> (case m srv (ref_cli self) (ref_oid self) item of (act, srv1) \<Rightarrow>
         (if blocking self then
            (case Wait_enter srv1 act of
               (srv2, Some e) \<Rightarrow> Inl e
             | (srv2, None) \<Rightarrow> Inr (act, srv2))
          else Inr (act, srv1))))"

definition RemoteReference_GetItem ::
  "remote_reference \<Rightarrow> 'obj service \<Rightarrow> value \<Rightarrow> error + deferred_result \<times> 'obj service" where
  "RemoteReference_GetItem self srv item = call_item_method self srv ''GetItem'' item"

definition RemoteReference_DelItem ::
  "remote_reference \<Rightarrow> 'obj service \<Rightarrow> value \<Rightarrow> error + deferred_result \<times> 'obj service" where
  "RemoteReference_DelItem self srv item = call_item_method self srv ''Delitem'' item"

subsection \<open>The object translator\<close>

text \<open>
  \<^verbatim>\<open>SequenceSerializer.Serialize\<close> called directly, as the object translator calls it
  on the address: it is the branch of \<open>Serialize\<close> for sequences, and it fails on an
  object that has no length or whose type is not in \<open>SEQ_ID_MAP\<close>.
\<close>

definition SequenceSerializer_Serialize :: "value \<Rightarrow> error + string" where
  "SequenceSerializer_Serialize obj = (case obj of
       VSeq k xs \<Rightarrow> writes
         [IntSerializer_Serialize (int (length xs)),
          ByteSerializer_Serialize (SEQ_ID_MAP k),
          writes (map Serialize xs)]
     | VBytes s \<Rightarrow> Inl KeyError
     | VText s \<Rightarrow> Inl KeyError
     | VMap kvs \<Rightarrow> Inl KeyError
     | _ \<Rightarrow> Inl (TypeError ''object has no len()''))"

text \<open>
  \<^verbatim>\<open>ObjectTranslator.Serialize\<close>: the object is entered in \<open>omap\<close> under its
  \<^verbatim>\<open>id\<close>, and the id and the address of the service are written.
\<close>

definition ObjectTranslator_Serialize :: "'obj service \<Rightarrow> 'obj \<Rightarrow> int \<Rightarrow> 'obj service \<times> (error + string)" where
  "ObjectTranslator_Serialize srv obj id_obj =
     (srv\<lparr>omap := (omap srv)(id_obj \<mapsto> obj)\<rparr>,
      write2 (LongSerializer_Serialize id_obj) (SequenceSerializer_Serialize (addr_value srv)))"

datatype 'obj decoded = Local_object 'obj | Proxy remote_reference

text \<open>
  \<^verbatim>\<open>ObjectTranslator.Deserialize\<close>: the object, the service (\<^verbatim>\<open>GetClient\<close> may add a
  client) and the rest of the stream.
\<close>

definition ObjectTranslator_Deserialize ::
  "runtime \<Rightarrow> 'obj service \<Rightarrow> string \<Rightarrow> error + 'obj decoded \<times> 'obj service \<times> string" where
  "ObjectTranslator_Deserialize rt srv fin = (case LongSerializer_Deserialize fin of
       Inl e \<Rightarrow> Inl e
     | Inr (oid, fin1) \<Rightarrow> (case SequenceSerializer_Deserialize rt fin1 of
         Inl e \<Rightarrow> Inl e
       | Inr (a, fin2) \<Rightarrow>
           (let a' = VSeq T_tuple (elements a) in
            if py_eq a' (addr_value srv) then
              (case omap srv oid of
                 Some obj \<Rightarrow> Inr (Local_object obj, srv, fin2)
               | None \<Rightarrow> Inl (ValueError ''Bad OID in serialized data''))
            else (case GetClient srv a' of
                Inl e \<Rightarrow> Inl e
              | Inr (cli, srv1) \<Rightarrow> Inr (Proxy (RemoteReference_init cli oid), srv1, fin2)))))"

section \<open>The values of the round trip\<close>












section \<open>A runtime for the examples\<close>

text \<open>
  The examples below are evaluated with this runtime. It stands for Python on what
  the examples give it: data of ASCII characters under the codec name \<^verbatim>\<open>UTF-8\<close>
  decode to the text of the same characters; a set and a dict are iterated in the
  order of insertion. Any other decoding, and the call of an attribute in
  \<open>other_attributes\<close>, are outside the examples (they are an exception here).
\<close>

definition example_runtime :: runtime where
  "example_runtime =
     \<lparr>decode = (\<lambda>codec data. if codec = ''UTF-8'' \<and> ascii data then Inr (VText data) else Inl LookupError),
      set_order = (\<lambda>xs. xs), dict_order = (\<lambda>kvs. kvs),
      construct = (\<lambda>name args. Inl (TypeError name))\<rparr>"

section \<open>Properties\<close>

subsection \<open>The transaction counter at rollover\<close>

lemma and_ffffffff: "(x::int) AND 0xffffffff = x mod 2 ^ 32"
proof -
  have "(0xffffffff::int) = mask 32"
    by (simp add: mask_eq_exp_minus_1)
  then have "x AND 0xffffffff = take_bit 32 x"
    by (simp only: take_bit_eq_mask)
  then show ?thesis
    by (simp only: take_bit_eq_mod)
qed

lemma XID_after_eq: "XID_after n = int n mod 2 ^ 32"
proof (induction n)
  case 0
  show ?case by (simp add: XID_init_def)
next
  case (Suc n)
  have "(int n mod 2 ^ 32 + 1) mod 2 ^ 32 = (int n + 1) mod (2 ^ 32 :: int)"
    by (simp add: mod_add_left_eq)
  with Suc show ?case
    by (simp add: NewXID_def Let_def and_ffffffff add.commute)
qed

text \<open>
  C3. After 4294967295 calls the counter holds 4294967295; the next call stores 0 and
  returns \<open>-1\<close>, which is outside the range of a 32-bit transaction id.
\<close>

theorem NewXID_rollover_returns_minus_one:
  "XID_after 4294967295 = 4294967295 \<and> NewXID (XID_after 4294967295) = (-1, 0)"
proof -
  have a: "XID_after 4294967295 = 4294967295"
    by (simp add: XID_after_eq)
  have "NewXID 4294967295 = (-1, 0)"
    by (simp add: NewXID_def Let_def and_ffffffff)
  with a show ?thesis by simp
qed

subsection \<open>The directory\<close>

text \<open>
  C10. \<open>Unregister\<close> never raises; it returns the service with the entry of the name
  removed from \<open>pubmap\<close> and every other attribute, \<open>omap\<close> among them, as it was;
  when the name is absent the service is returned as it was.
\<close>

theorem Unregister_frame:
  "Unregister s name = Inr (s\<lparr>pubmap := (pubmap s)(name := None)\<rparr>) \<and>
   (\<forall>s'. Unregister s name = Inr s' \<longrightarrow>
      omap s' = omap s \<and> pubmap s' name = None \<and>
      (\<forall>n. n \<noteq> name \<longrightarrow> pubmap s' n = pubmap s n)) \<and>
   (pubmap s name = None \<longrightarrow> Unregister s name = Inr s)"
proof -
  have absent: "pubmap s name = None \<Longrightarrow> (pubmap s)(name := None) = pubmap s"
    by (rule ext) simp
  have eq: "Unregister s name = Inr (s\<lparr>pubmap := (pubmap s)(name := None)\<rparr>)"
    by (cases "pubmap s name") (simp_all add: Unregister_def del_item_def absent)
  moreover have "pubmap s name = None \<Longrightarrow> Unregister s name = Inr s"
    by (simp add: Unregister_def del_item_def)
  ultimately show ?thesis by simp
qed

theorem Unregister_frame_witness:
  "Unregister (Register (Service_init (''0.0.0.0'', 12074) XID_init []) (42::nat) 7 ''a'') ''b''
     = Inr (Register (Service_init (''0.0.0.0'', 12074) XID_init []) 42 7 ''a'') \<and>
   omap (projr (Unregister (Register (Service_init (''0.0.0.0'', 12074) XID_init []) (42::nat) 7 ''a'') ''a'')) 7
     = Some 42"
proof -
  define s :: "nat service" where
    "s = Register (Service_init (''0.0.0.0'', 12074) XID_init []) 42 7 ''a''"
  have absent: "pubmap s ''b'' = None"
    by (simp add: s_def Register_def Service_init_def)
  have "pubmap s ''b'' = None \<longrightarrow> Unregister s ''b'' = Inr s"
    by (rule conjunct2 [OF conjunct2 [OF Unregister_frame]])
  with absent have 1: "Unregister s ''b'' = Inr s" by (rule rev_mp)
  have "Unregister s ''a'' = Inr (s\<lparr>pubmap := (pubmap s)(''a'' := None)\<rparr>)"
    by (rule conjunct1 [OF Unregister_frame])
  then have "omap (projr (Unregister s ''a'')) = omap s" by simp
  moreover have "omap s 7 = Some 42"
    by (simp add: s_def Register_def)
  ultimately have 2: "omap (projr (Unregister s ''a'')) 7 = Some 42" by simp
  from 1 2 show ?thesis unfolding s_def by (rule conjI)
qed

subsection \<open>The authorizer\<close>

text \<open>
  C8 as the code has it. \<open>CanClientSync\<close> is true of every client. \<open>CanClientAccess\<close>
  is true of a packet without an \<open>attr\<close> attribute; when the packet carries an
  \<open>attr\<close> that is a byte or text string, it is false exactly when the string starts
  with an underscore.
\<close>

theorem CanClientAccess_strings:
  "CanClientSync client \<and>
   (\<not> Has pkt [''attr''] \<longrightarrow> CanClientAccess client obj pkt = Inr True) \<and>
   (\<forall>d s. attrs pkt = Some d \<and> (map_of d ''attr'' = Some (VBytes s) \<or> map_of d ''attr'' = Some (VText s))
      \<longrightarrow> CanClientAccess client obj pkt = Inr (\<not> (s \<noteq> [] \<and> hd s = CHR ''_'')))"
proof -
  have sw: "take (Suc 0) s = ''_'' \<longleftrightarrow> (s \<noteq> [] \<and> hd s = CHR ''_'')" for s :: string
    by (cases s) auto
  have "CanClientAccess client obj pkt = Inr (\<not> (s \<noteq> [] \<and> hd s = CHR ''_''))"
    if "attrs pkt = Some d" "map_of d ''attr'' = Some (VBytes s) \<or> map_of d ''attr'' = Some (VText s)"
    for d s
    using that
    by (auto simp: CanClientAccess_def Has_def Packet_getattr_def Packet_getattr_hook_def
        startswith_def str_of_def sw)
  then show ?thesis
    by (simp add: CanClientSync_def CanClientAccess_def)
qed

theorem CanClientAccess_strings_witness:
  "CanClientAccess () () (Packet_init (VInt 2) [(''op'', VBytes ''GetAttr''), (''attr'', VBytes ''_secret'')]) = Inr False \<and>
   CanClientAccess () () (Packet_init (VInt 2) [(''op'', VBytes ''GetAttr''), (''attr'', VBytes ''name'')]) = Inr True \<and>
   CanClientAccess () () (Packet_init (VInt 2) [(''op'', VBytes ''Len'')]) = Inr True"
proof -
  let ?p1 = "Packet_init (VInt 2) [(''op'', VBytes ''GetAttr''), (''attr'', VBytes ''_secret'')]"
  let ?p2 = "Packet_init (VInt 2) [(''op'', VBytes ''GetAttr''), (''attr'', VBytes ''name'')]"
  let ?p3 = "Packet_init (VInt 2) [(''op'', VBytes ''Len'')]"
  have 1: "CanClientAccess () () ?p1 = Inr False"
    using CanClientAccess_strings [of "()" ?p1 "()"] by (simp add: Packet_init_def)
  have 2: "CanClientAccess () () ?p2 = Inr True"
    using CanClientAccess_strings [of "()" ?p2 "()"] by (simp add: Packet_init_def)
  have "\<not> Has ?p3 [''attr'']"
    by (simp add: Has_def Packet_init_def)
  with CanClientAccess_strings [of "()" ?p3 "()"]
  have 3: "CanClientAccess () () ?p3 = Inr True" by blast
  from 1 2 3 show ?thesis by simp
qed

text \<open>
  C8 as stated fails on a packet whose \<open>attr\<close> is not a string: the packet carries no
  \<open>attr\<close> starting with an underscore, and the call raises instead of returning true.
\<close>

theorem CanClientAccess_nonstring_counterexample:
  "CanClientAccess () () (Packet_init (VInt 2) [(''op'', VBytes ''GetAttr''), (''attr'', VInt 5)])
     = Inl (AttributeError ''startswith'')"
  by (simp add: CanClientAccess_def Has_def Packet_init_def Packet_getattr_def
      Packet_getattr_hook_def startswith_def str_of_def)

subsection \<open>Packets without their attributes\<close>

text \<open>
  C6. Reading \<open>cmd\<close> on a packet that lacks it raises \<^verbatim>\<open>NameError\<close>: \<open>CMD\<close> is not a
  name of the module, and the class \<open>CMD\<close> of the service has no \<open>KEEPALIVE\<close>.
  Reading \<open>attrs\<close> on a packet that lacks it gives the empty mapping.
\<close>

theorem Packet_getattr_cmd_missing:
  "Packet_getattr \<lparr>cmd = None, attrs = Some [(''xid'', VInt 1)]\<rparr> ''cmd'' = Inl (NameError ''CMD'') \<and>
   class_attr CMD ''KEEPALIVE'' = None \<and>
   Packet_getattr \<lparr>cmd = Some (VInt 2), attrs = None\<rparr> ''attrs''
     = Inr (VMap [], \<lparr>cmd = Some (VInt 2), attrs = Some []\<rparr>)"
  by (simp add: Packet_getattr_def Packet_getattr_hook_def packet_globals_def class_attr_def CMD_def)

subsection \<open>Remote references\<close>

text \<open>
  C7. \<open>DelItem\<close> of a remote reference asks the service for an attribute it does not
  have, in either mode: no request is built. \<open>GetItem\<close> is the path that works.
\<close>

theorem RemoteReference_DelItem_raises:
  "RemoteReference_DelItem self srv item = Inl (AttributeError ''Delitem'')"
  by (simp add: RemoteReference_DelItem_def call_item_method_def Service_item_method_def)

subsection \<open>Deferred results\<close>

text \<open>
  C4. A reply that carries an error and no result (the reply of \<^verbatim>\<open>cmd_RESOLVE\<close> for
  an unknown name) completes the deferred result, and \<open>GetResult\<close> then raises
  \<^verbatim>\<open>NameError\<close> for the undefined name \<open>pkt\<close>, not the error of the reply. A new
  deferred result fails with the not-ready error, and a reply with a result and no
  error gives its result.
\<close>

theorem GetResult_error_reply_raises_NameError:
  "(case Accept (DeferredResult_init 7 None)
       (Packet_init (VInt 3) [(''xid'', VInt 7), (''name'', VBytes ''nobody''),
          (''error'', VError ''NameError'' [VBytes ''No such name''])]) of
      Inl e \<Rightarrow> False
    | Inr d \<Rightarrow> ready d \<and> GetResult d = Inl (NameError ''pkt'')) \<and>
   GetResult (DeferredResult_init 7 None) = Inl (RuntimeError ''Value not available yet'') \<and>
   (case Accept (DeferredResult_init 7 None)
       (Packet_init (VInt 3) [(''xid'', VInt 7), (''name'', VBytes ''x''), (''result'', VInt 42)]) of
      Inl e \<Rightarrow> False
    | Inr d \<Rightarrow> ready d \<and> GetResult d = Inr (VInt 42))"
  by (simp add: Accept_def filt_def Packet_getattr_def Packet_getattr_hook_def Packet_init_def
      DeferredResult_init_def scalar_eq_def number_def scaled_def GetResult_def Has_def service_globals_def)

subsection \<open>Handles\<close>

lemma dict_update_absent:
  "find (\<lambda>item. py_eq (fst item) k) d = None \<Longrightarrow> dict_update k v d = d @ [(k, v)]"
  by (induction d) (auto split: if_splits)

lemma GetClient_known:
  "hashable a \<Longrightarrow> find (\<lambda>item. py_eq (fst item) a) (clients srv) = Some item \<Longrightarrow>
     GetClient srv a = Inr (snd item, srv)"
  by (simp add: GetClient_def dict_get_def)

lemma GetClient_new:
  "hashable a \<Longrightarrow> find (\<lambda>item. py_eq (fst item) a) (clients srv) = None \<Longrightarrow>
     GetClient srv a = Inr (\<lparr>cli_addr = a\<rparr>, srv\<lparr>clients := clients srv @ [(a, \<lparr>cli_addr = a\<rparr>)]\<rparr>)"
  by (simp add: GetClient_def dict_get_def Let_def dict_update_absent)

lemma GetClient_unhashable:
  "\<not> hashable a \<Longrightarrow> GetClient srv a = Inl (TypeError ''unhashable type'')"
  by (simp add: GetClient_def dict_get_def)

text \<open>
  C5, as the code has it. A handle is an oid followed by an address; the address
  read, made a tuple, is compared with the address of the service by \<^verbatim>\<open>==\<close>.
  \<^item> Equal: the result is the very object that \<open>omap\<close> holds at the oid, the service
    is unchanged; it is \<^verbatim>\<open>ValueError('Bad OID in serialized data')\<close> when \<open>omap\<close>
    holds nothing there.
  \<^item> Different and hashable: the result is a proxy on a new remote reference with
    this oid, in blocking mode and with no pushed data, whose client is the one the
    service already has for the address, or else a new client of that address, which
    the service adds to its clients.
  \<^item> Different and unhashable: \<^verbatim>\<open>TypeError\<close>, from the lookup in \<open>clients\<close>.
\<close>

theorem ObjectTranslator_Deserialize_cases:
  assumes "LongSerializer_Deserialize fin = Inr (oid, fin1)"
    and "SequenceSerializer_Deserialize rt fin1 = Inr (a, fin2)"
  shows "let a' = VSeq T_tuple (elements a) in
     (py_eq a' (addr_value srv) \<longrightarrow>
        (case omap srv oid of
           Some obj \<Rightarrow> ObjectTranslator_Deserialize rt srv fin = Inr (Local_object obj, srv, fin2)
         | None \<Rightarrow> ObjectTranslator_Deserialize rt srv fin = Inl (ValueError ''Bad OID in serialized data''))) \<and>
     (\<not> py_eq a' (addr_value srv) \<and> hashable a' \<longrightarrow>
        (case find (\<lambda>item. py_eq (fst item) a') (clients srv) of
           Some item \<Rightarrow> ObjectTranslator_Deserialize rt srv fin =
             Inr (Proxy \<lparr>ref_cli = snd item, ref_oid = oid, blocking = True, pushdata = []\<rparr>, srv, fin2)
         | None \<Rightarrow> ObjectTranslator_Deserialize rt srv fin =
             Inr (Proxy \<lparr>ref_cli = \<lparr>cli_addr = a'\<rparr>, ref_oid = oid, blocking = True, pushdata = []\<rparr>,
                  srv\<lparr>clients := clients srv @ [(a', \<lparr>cli_addr = a'\<rparr>)]\<rparr>, fin2))) \<and>
     (\<not> py_eq a' (addr_value srv) \<and> \<not> hashable a' \<longrightarrow>
        ObjectTranslator_Deserialize rt srv fin = Inl (TypeError ''unhashable type''))"
proof -
  define a' where "a' = VSeq T_tuple (elements a)"
  have D: "ObjectTranslator_Deserialize rt srv fin =
      (if py_eq a' (addr_value srv) then
         (case omap srv oid of
            Some obj \<Rightarrow> Inr (Local_object obj, srv, fin2)
          | None \<Rightarrow> Inl (ValueError ''Bad OID in serialized data''))
       else (case GetClient srv a' of
           Inl e \<Rightarrow> Inl e
         | Inr (cli, srv1) \<Rightarrow> Inr (Proxy (RemoteReference_init cli oid), srv1, fin2)))"
    using assms by (simp add: ObjectTranslator_Deserialize_def Let_def a'_def)
  have 1: "py_eq a' (addr_value srv) \<longrightarrow>
        (case omap srv oid of
           Some obj \<Rightarrow> ObjectTranslator_Deserialize rt srv fin = Inr (Local_object obj, srv, fin2)
         | None \<Rightarrow> ObjectTranslator_Deserialize rt srv fin = Inl (ValueError ''Bad OID in serialized data''))"
    by (simp add: D split: option.splits)
  have 2: "\<not> py_eq a' (addr_value srv) \<and> hashable a' \<longrightarrow>
        (case find (\<lambda>item. py_eq (fst item) a') (clients srv) of
           Some item \<Rightarrow> ObjectTranslator_Deserialize rt srv fin =
             Inr (Proxy \<lparr>ref_cli = snd item, ref_oid = oid, blocking = True, pushdata = []\<rparr>, srv, fin2)
         | None \<Rightarrow> ObjectTranslator_Deserialize rt srv fin =
             Inr (Proxy \<lparr>ref_cli = \<lparr>cli_addr = a'\<rparr>, ref_oid = oid, blocking = True, pushdata = []\<rparr>,
                  srv\<lparr>clients := clients srv @ [(a', \<lparr>cli_addr = a'\<rparr>)]\<rparr>, fin2))"
    by (simp add: D GetClient_known GetClient_new RemoteReference_init_def split: option.splits)
  have 3: "\<not> py_eq a' (addr_value srv) \<and> \<not> hashable a' \<longrightarrow>
        ObjectTranslator_Deserialize rt srv fin = Inl (TypeError ''unhashable type'')"
    by (simp add: D GetClient_unhashable)
  from 1 2 3 show ?thesis
    unfolding Let_def a'_def by (intro conjI)
qed

theorem ObjectTranslator_Deserialize_cases_witness:
  "snd (ObjectTranslator_Serialize
      (Register (Service_init (''10.0.0.1'', 12074) XID_init []) (42::nat) 7 ''o'') 42 7)
   = Inr [CHR 0x00, CHR 0x00, CHR 0x00, CHR 0x01, CHR ''7'',
          CHR 0x00, CHR 0x00, CHR 0x00, CHR 0x02, CHR 0x01,
          CHR 0x04, CHR 0x00, CHR 0x00, CHR 0x00, CHR 0x08,
          CHR ''1'', CHR ''0'', CHR ''.'', CHR ''0'', CHR ''.'', CHR ''0'', CHR ''.'', CHR ''1'',
          CHR 0x01, CHR 0x00, CHR 0x00, CHR 0x2F, CHR 0x2A]
   \<and>
   ObjectTranslator_Deserialize example_runtime
     (Register (Service_init (''10.0.0.1'', 12074) XID_init []) (42::nat) 7 ''o'')
     [CHR 0x00, CHR 0x00, CHR 0x00, CHR 0x01, CHR ''7'',
      CHR 0x00, CHR 0x00, CHR 0x00, CHR 0x02, CHR 0x01,
      CHR 0x04, CHR 0x00, CHR 0x00, CHR 0x00, CHR 0x08,
      CHR ''1'', CHR ''0'', CHR ''.'', CHR ''0'', CHR ''.'', CHR ''0'', CHR ''.'', CHR ''1'',
      CHR 0x01, CHR 0x00, CHR 0x00, CHR 0x2F, CHR 0x2A]
   = Inr (Local_object 42,
          Register (Service_init (''10.0.0.1'', 12074) XID_init []) 42 7 ''o'', [])
   \<and>
   ObjectTranslator_Deserialize example_runtime
     (Service_init (''10.0.0.2'', 12074) XID_init [] :: nat service)
     [CHR 0x00, CHR 0x00, CHR 0x00, CHR 0x01, CHR ''7'',
      CHR 0x00, CHR 0x00, CHR 0x00, CHR 0x02, CHR 0x01,
      CHR 0x04, CHR 0x00, CHR 0x00, CHR 0x00, CHR 0x08,
      CHR ''1'', CHR ''0'', CHR ''.'', CHR ''0'', CHR ''.'', CHR ''0'', CHR ''.'', CHR ''1'',
      CHR 0x01, CHR 0x00, CHR 0x00, CHR 0x2F, CHR 0x2A]
   = Inr (Proxy \<lparr>ref_cli = \<lparr>cli_addr = VSeq T_tuple [VBytes ''10.0.0.1'', VInt 12074]\<rparr>,
                 ref_oid = 7, blocking = True, pushdata = []\<rparr>,
          (Service_init (''10.0.0.2'', 12074) XID_init [])
            \<lparr>clients := [(VSeq T_tuple [VBytes ''10.0.0.1'', VInt 12074],
                          \<lparr>cli_addr = VSeq T_tuple [VBytes ''10.0.0.1'', VInt 12074]\<rparr>)]\<rparr>, [])
   \<and>
   ObjectTranslator_Deserialize example_runtime
     ((Service_init (''10.0.0.2'', 12074) XID_init [] :: nat service)
        \<lparr>clients := [(VSeq T_tuple [VBytes ''10.0.0.1'', VInt 12074],
                      \<lparr>cli_addr = VSeq T_tuple [VBytes ''10.0.0.1'', VInt 12074]\<rparr>)]\<rparr>)
     [CHR 0x00, CHR 0x00, CHR 0x00, CHR 0x01, CHR ''7'',
      CHR 0x00, CHR 0x00, CHR 0x00, CHR 0x02, CHR 0x01,
      CHR 0x04, CHR 0x00, CHR 0x00, CHR 0x00, CHR 0x08,
      CHR ''1'', CHR ''0'', CHR ''.'', CHR ''0'', CHR ''.'', CHR ''0'', CHR ''.'', CHR ''1'',
      CHR 0x01, CHR 0x00, CHR 0x00, CHR 0x2F, CHR 0x2A]
   = Inr (Proxy \<lparr>ref_cli = \<lparr>cli_addr = VSeq T_tuple [VBytes ''10.0.0.1'', VInt 12074]\<rparr>,
                 ref_oid = 7, blocking = True, pushdata = []\<rparr>,
          (Service_init (''10.0.0.2'', 12074) XID_init [])
            \<lparr>clients := [(VSeq T_tuple [VBytes ''10.0.0.1'', VInt 12074],
                          \<lparr>cli_addr = VSeq T_tuple [VBytes ''10.0.0.1'', VInt 12074]\<rparr>)]\<rparr>, [])"
proof -
  define A where "A = VSeq T_tuple [VBytes ''10.0.0.1'', VInt 12074]"
  define S :: "nat service" where "S = Register (Service_init (''10.0.0.1'', 12074) XID_init []) 42 7 ''o''"
  define T :: "nat service" where "T = Service_init (''10.0.0.2'', 12074) XID_init []"
  define T' :: "nat service" where "T' = T\<lparr>clients := [(A, \<lparr>cli_addr = A\<rparr>)]\<rparr>"
  define fin where "fin =
     [CHR 0x00, CHR 0x00, CHR 0x00, CHR 0x01, CHR ''7'',
      CHR 0x00, CHR 0x00, CHR 0x00, CHR 0x02, CHR 0x01,
      CHR 0x04, CHR 0x00, CHR 0x00, CHR 0x00, CHR 0x08,
      CHR ''1'', CHR ''0'', CHR ''.'', CHR ''0'', CHR ''.'', CHR ''0'', CHR ''.'', CHR ''1'',
      CHR 0x01, CHR 0x00, CHR 0x00, CHR 0x2F, CHR 0x2A]"
  have w: "write2 (LongSerializer_Serialize 7) (SequenceSerializer_Serialize A) = Inr fin"
    unfolding A_def fin_def by code_simp
  have 0: "snd (ObjectTranslator_Serialize S 42 7) = Inr fin"
    using w by (simp add: ObjectTranslator_Serialize_def S_def Register_def Service_init_def
        addr_value_def A_def)
  have l: "LongSerializer_Deserialize fin = Inr (7, drop 5 fin)"
    unfolding fin_def by code_simp
  have q: "SequenceSerializer_Deserialize example_runtime (drop 5 fin) = Inr (A, [])"
    unfolding fin_def A_def by code_simp
  have el: "VSeq T_tuple (elements A) = A"
    by (simp add: A_def elements_def)
  have same: "py_eq A (addr_value S)"
    by (simp add: A_def S_def Register_def Service_init_def addr_value_def
        scalar_eq_def number_def scaled_def str_of_def undecodable_def)
  have other: "\<not> py_eq A (addr_value T)"
    by (simp add: A_def T_def Service_init_def addr_value_def
        scalar_eq_def number_def scaled_def str_of_def undecodable_def)
  have other': "\<not> py_eq A (addr_value T')"
    by (simp add: A_def T'_def T_def Service_init_def addr_value_def
        scalar_eq_def number_def scaled_def str_of_def undecodable_def)
  have h: "hashable A"
    by (simp add: A_def)
  have o: "omap S 7 = Some 42"
    by (simp add: S_def Register_def)
  have c: "find (\<lambda>item. py_eq (fst item) A) (clients T) = None"
    by (simp add: T_def Service_init_def)
  have c': "find (\<lambda>item. py_eq (fst item) A) (clients T') = Some (A, \<lparr>cli_addr = A\<rparr>)"
    by (simp add: T'_def A_def scalar_eq_def number_def scaled_def str_of_def undecodable_def)
  from ObjectTranslator_Deserialize_cases [OF l q, of S] same o
  have 1: "ObjectTranslator_Deserialize example_runtime S fin = Inr (Local_object 42, S, [])"
    by (simp add: el Let_def)
  from ObjectTranslator_Deserialize_cases [OF l q, of T] other h c
  have 2: "ObjectTranslator_Deserialize example_runtime T fin
      = Inr (Proxy \<lparr>ref_cli = \<lparr>cli_addr = A\<rparr>, ref_oid = 7, blocking = True, pushdata = []\<rparr>, T', [])"
    by (simp add: el Let_def T'_def T_def Service_init_def)
  from ObjectTranslator_Deserialize_cases [OF l q, of T'] other' h c'
  have 3: "ObjectTranslator_Deserialize example_runtime T' fin
      = Inr (Proxy \<lparr>ref_cli = \<lparr>cli_addr = A\<rparr>, ref_oid = 7, blocking = True, pushdata = []\<rparr>, T', [])"
    by (simp add: el Let_def)
  from 0 1 2 3 show ?thesis
    unfolding fin_def S_def T_def T'_def A_def by (intro conjI)
qed

text \<open>
  The claim promises a proxy whenever the address differs. The handle written for
  oid 7 with the address \<^verbatim>\<open>[[], 12074]\<close> is read by the service at
  \<^verbatim>\<open>('10.0.0.2', 12074)\<close> as the tuple \<^verbatim>\<open>([], 12074)\<close>, which differs from its own
  address and cannot be hashed: \<^verbatim>\<open>GetClient\<close> raises \<^verbatim>\<open>TypeError\<close> and no proxy is
  made.
\<close>

theorem ObjectTranslator_Deserialize_unhashable_counterexample:
  "write2 (LongSerializer_Serialize 7)
      (SequenceSerializer_Serialize (VSeq T_list [VSeq T_list [], VInt 12074]))
   = Inr [CHR 0x00, CHR 0x00, CHR 0x00, CHR 0x01, CHR ''7'',
          CHR 0x00, CHR 0x00, CHR 0x00, CHR 0x02, CHR 0x00,
          CHR 0x07, CHR 0x00, CHR 0x00, CHR 0x00, CHR 0x00, CHR 0x00,
          CHR 0x01, CHR 0x00, CHR 0x00, CHR 0x2F, CHR 0x2A]
   \<and>
   (\<forall>rt. ObjectTranslator_Deserialize rt
      (Service_init (''10.0.0.2'', 12074) XID_init [] :: nat service)
      [CHR 0x00, CHR 0x00, CHR 0x00, CHR 0x01, CHR ''7'',
       CHR 0x00, CHR 0x00, CHR 0x00, CHR 0x02, CHR 0x00,
       CHR 0x07, CHR 0x00, CHR 0x00, CHR 0x00, CHR 0x00, CHR 0x00,
       CHR 0x01, CHR 0x00, CHR 0x00, CHR 0x2F, CHR 0x2A]
    = Inl (TypeError ''unhashable type''))"
proof -
  define fin where "fin =
     [CHR 0x00, CHR 0x00, CHR 0x00, CHR 0x01, CHR ''7'',
      CHR 0x00, CHR 0x00, CHR 0x00, CHR 0x02, CHR 0x00,
      CHR 0x07, CHR 0x00, CHR 0x00, CHR 0x00, CHR 0x00, CHR 0x00,
      CHR 0x01, CHR 0x00, CHR 0x00, CHR 0x2F, CHR 0x2A]"
  have w: "write2 (LongSerializer_Serialize 7)
      (SequenceSerializer_Serialize (VSeq T_list [VSeq T_list [], VInt 12074])) = Inr fin"
    unfolding fin_def by code_simp
  have l: "LongSerializer_Deserialize fin = Inr (7, drop 5 fin)"
    unfolding fin_def by code_simp
  have q: "SequenceSerializer_Deserialize rt (drop 5 fin)
      = Inr (VSeq T_list [VSeq T_list [], VInt 12074], [])" for rt
    unfolding fin_def by code_simp
  have "ObjectTranslator_Deserialize rt (Service_init (''10.0.0.2'', 12074) XID_init [] :: nat service) fin
      = Inl (TypeError ''unhashable type'')" for rt
    by (simp add: ObjectTranslator_Deserialize_def l q Let_def elements_def addr_value_def
        Service_init_def scalar_eq_def number_def str_of_def GetClient_def dict_get_def)
  with w show ?thesis
    unfolding fin_def by simp
qed

subsection \<open>The order of effects of a request\<close>

text \<open>
  C9. \<open>SendPacket\<close> enters the deferred result in \<open>outstanding\<close> and transmits
  nothing. \<open>Wait\<close> then adds the waiter to \<open>WAITING\<close> and only after that calls the
  \<open>onwait\<close> action, which hands the datagram to the socket (or raises, and nothing is
  sent). So the datagram that a reply answers leaves after the deferred is in
  \<open>outstanding\<close> and the waiter is in \<open>WAITING\<close>.
\<close>

theorem request_order:
  "case SendPacket s cli kwargs of (act, s1) \<Rightarrow>
     outstanding s1 (xid act) = Some act \<and>
     log s1 = log s @ [Ev_outstanding (xid act)] \<and>
     (case Wait_enter s1 act of (s2, err) \<Rightarrow>
        xid act \<in> set (WAITING s2) \<and> outstanding s2 (xid act) = Some act \<and>
        (\<exists>post. log s2 = log s @ [Ev_outstanding (xid act), Ev_waiting (xid act)] @ post \<and>
           (post = [] \<or> (\<exists>data. post = [Ev_sendto data (cli_addr cli)]))))"
  by (auto simp: SendPacket_def Wait_enter_def Go_def run_onwait_def DeferredResult_init_def
      Let_def split: prod.splits option.splits sum.splits)

theorem request_order_witness:
  "(case SendPacket (Service_init (''0.0.0.0'', 12074) XID_init [] :: nat service)
       \<lparr>cli_addr = VSeq T_tuple [VBytes ''10.0.0.2'', VInt 12074]\<rparr>
       [(''op'', VBytes ''Len''), (''oid'', VLong 5)] of (act, s1) \<Rightarrow>
     outstanding s1 (xid act) = Some act \<and>
     log s1 = log (Service_init (''0.0.0.0'', 12074) XID_init [] :: nat service) @ [Ev_outstanding (xid act)] \<and>
     (case Wait_enter s1 act of (s2, err) \<Rightarrow>
        xid act \<in> set (WAITING s2) \<and> outstanding s2 (xid act) = Some act \<and>
        (\<exists>post. log s2 = log (Service_init (''0.0.0.0'', 12074) XID_init [] :: nat service)
             @ [Ev_outstanding (xid act), Ev_waiting (xid act)] @ post \<and>
           (post = [] \<or> (\<exists>data. post = [Ev_sendto data
              (cli_addr \<lparr>cli_addr = VSeq T_tuple [VBytes ''10.0.0.2'', VInt 12074]\<rparr>)])))))
   \<and>
   (case SendPacket (Service_init (''0.0.0.0'', 12074) XID_init [] :: nat service)
       \<lparr>cli_addr = VSeq T_tuple [VBytes ''10.0.0.2'', VInt 12074]\<rparr>
       [(''op'', VBytes ''Len''), (''oid'', VLong 5)] of (act, s1) \<Rightarrow>
     log (fst (Wait_enter s1 act)) =
       [Ev_outstanding 0, Ev_waiting 0,
        Ev_sendto
         [CHR 0x02, CHR 0x08, CHR 0x00, CHR 0x00, CHR 0x00, CHR 0x03, CHR 0x00,
          CHR 0x00, CHR 0x00, CHR 0x02, CHR 0x01, CHR 0x04, CHR 0x00, CHR 0x00,
          CHR 0x00, CHR 0x03, CHR ''o'', CHR ''i'', CHR ''d'', CHR 0x02, CHR 0x00,
          CHR 0x00, CHR 0x00, CHR 0x01, CHR ''5'', CHR 0x00, CHR 0x00, CHR 0x00,
          CHR 0x02, CHR 0x01, CHR 0x04, CHR 0x00, CHR 0x00, CHR 0x00, CHR 0x02,
          CHR ''o'', CHR ''p'', CHR 0x04, CHR 0x00, CHR 0x00, CHR 0x00, CHR 0x03,
          CHR ''L'', CHR ''e'', CHR ''n'', CHR 0x00, CHR 0x00, CHR 0x00, CHR 0x02,
          CHR 0x01, CHR 0x04, CHR 0x00, CHR 0x00, CHR 0x00, CHR 0x03, CHR ''x'',
          CHR ''i'', CHR ''d'', CHR 0x01, CHR 0x00, CHR 0x00, CHR 0x00, CHR 0x00]
         (VSeq T_tuple [VBytes ''10.0.0.2'', VInt 12074])])"
  (is "?A \<and> ?B")
proof
  show ?A by (rule request_order)
  show ?B by code_simp
qed

subsection \<open>The leaf serializers invert\<close>

lemma write2_Inr [simp]: "write2 (Inr a) (Inr b) = Inr (a @ b)"
  by (simp add: write2_def)

lemma write2_Inl [simp]: "write2 (Inl e) b = Inl e"
  by (simp add: write2_def)

lemma writes_Nil [simp]: "writes [] = Inr []"
  by (simp add: writes_def)

lemma writes_Cons [simp]: "writes (w # ws) = write2 w (writes ws)"
  by (simp add: writes_def)


lemma length_be_bytes [simp]: "length (be_bytes k n) = k"
  by (induction k arbitrary: n) auto






lemma Byte_roundtrip:
  "0 \<le> i \<Longrightarrow> i \<le> 255 \<Longrightarrow>
     ByteSerializer_Serialize i = Inr [char_of i] \<and>
     ByteSerializer_Deserialize (char_of i # rest) = Inr (i, rest)"
  by (simp add: ByteSerializer_Serialize_def pack_B_def ByteSerializer_Deserialize_def read_def unpack_B_def)













subsection \<open>The ideal serializer of each value\<close>

lemma GetIdealSerializer_simps [simp]:
  "GetIdealSerializer (VInt i) = Some IntSerializer"
  "GetIdealSerializer (VLong i) = Some LongSerializer"
  "GetIdealSerializer (VFloat w) = Some FloatSerializer"
  "GetIdealSerializer (VBytes s) = Some BytesSerializer"
  "GetIdealSerializer (VText s) = Some TextSerializer"
  "GetIdealSerializer (VBool t) = Some BoolSerializer"
  "GetIdealSerializer (VSeq k xs) = Some SequenceSerializer"
  "GetIdealSerializer (VMap kvs) = Some MapSerializer"
  "GetIdealSerializer VNone = Some NoneSerializer"
  "GetIdealSerializer (VSlice a b c) = Some SliceSerializer"
  "GetIdealSerializer VEllipsis = Some EllipsisSerializer"
  "GetIdealSerializer (VError name args) = Some ErrorSerializer"
  by (cases k; simp add: GetIdealSerializer_def SERIALIZERS_def ideal_step_def isinstance_def mro_len_def)+

lemma tag_of_simps [simp]:
  "ByteSerializer_Serialize (tag_of se) = Inr [char_of (tag_of se)]"
  by (cases se) (simp_all add: tag_of_def ByteSerializer_Serialize_def pack_B_def)

lemma map_of_TAGS [simp]: "map_of TAGS (tag_of se) = Some se"
  by (cases se) (simp_all add: TAGS_def tag_of_def)

lemma tag_of_range: "0 \<le> tag_of se \<and> tag_of se \<le> 255"
  by (cases se) (simp_all add: tag_of_def)

lemma read_tag [simp]: "ByteSerializer_Deserialize (char_of (tag_of se) # rest) = Inr (tag_of se, rest)"
  using Byte_roundtrip [of "tag_of se" rest] tag_of_range [of se] by simp

section \<open>The round trip of the codec\<close>

declare Serialize.simps [simp del]

subsection \<open>Equality of keys\<close>








lemma py_sorted_Nil [simp]: "py_sorted [] = []"
  by (simp add: py_sorted_def)

lemma py_sorted_Cons [simp]: "py_sorted (x # xs) = insort_item x (py_sorted xs)"
  by (simp add: py_sorted_def)


lemma length_insort_item [simp]: "length (insort_item x ys) = Suc (length ys)"
  by (induction ys) simp_all

lemma length_py_sorted [simp]: "length (py_sorted kvs) = length kvs"
  by (induction kvs) simp_all

lemma mset_insort_item [simp]: "mset (insort_item x ys) = add_mset x (mset ys)"
  by (induction ys) simp_all

lemma mset_py_sorted [simp]: "mset (py_sorted kvs) = mset kvs"
  by (induction kvs) simp_all





subsection \<open>Unfolding the two dispatchers\<close>

lemma write2_empty [simp]: "write2 a (Inr []) = a"
  by (cases a) (simp_all add: write2_def)



subsection \<open>Sequences, sets and dicts\<close>


lemma SEQ_TYPE_MAP_ID [simp]: "SEQ_TYPE_MAP (SEQ_ID_MAP k) = Some k"
  by (cases k) (simp_all add: SEQ_TYPE_MAP_def SEQ_ID_MAP_def)







subsection \<open>Every supported value reads back\<close>




subsection \<open>What is read back is the same value\<close>






section \<open>The order of the items of a dict\<close>











end
